theory Spec2Isabelle
  imports Main "HOL-Library.Char_ord" "HOL-Library.List_Lexorder"
begin

section \<open>Data model\<close>

text \<open>
  The types of \<^verbatim>\<open>types/database.ts\<close> and the tables of the schema migration.
  Identifiers (UUIDs) and tokens are strings; a timestamp is an instant of the database
  clock, a natural number, so that \<^verbatim>\<open>ORDER BY created_at\<close> is the order of
  numbers. A column that may be NULL, and a TypeScript field marked \<^verbatim>\<open>?\<close>, is an
  option. The columns \<^verbatim>\<open>severity\<close> and \<^verbatim>\<open>status\<close> are TEXT with a CHECK
  constraint over four literals, and the TypeScript type is the union of the same four
  literals: they are datatypes.
\<close>

type_synonym uuid = string
type_synonym timestamp = nat

datatype severity = Low | Medium | High | Critical

datatype status = Open | In_progress | Resolved | Closed

datatype update_type = Status_change | Comment | Assignment | Resolution

text \<open>JSONB columns and TypeScript values of type \<^verbatim>\<open>any\<close>.\<close>

datatype json =
    JNull
  | JBool bool
  | JNum int
  | JStr string
  | JArr "json list"
  | JObj "(string \<times> json) list"

record Department =
  dept_id :: uuid
  dept_name :: string
  dept_description :: "string option"
  dept_created_at :: timestamp

record IssueCategory =
  cat_id :: uuid
  cat_name :: string
  cat_description :: "string option"
  color :: string
  icon :: string
  cat_created_at :: timestamp

record Profile =
  prof_id :: uuid
  user_id :: uuid
  email :: string
  role :: string
  display_name :: "string option"
  first_name :: "string option"
  last_name :: "string option"
  company :: "string option"
  job_title :: "string option"
  prof_department :: json

record IssueUpdate =
  upd_id :: uuid
  upd_issue_id :: uuid
  upd_type :: update_type
  content :: string
  old_status :: "string option"
  new_status :: "string option"
  created_by :: "uuid option"
  is_public :: bool
  upd_created_at :: timestamp

record AnonymousToken =
  tok_id :: uuid
  token :: string
  tok_issue_id :: uuid
  expires_at :: timestamp
  tok_created_at :: timestamp

text \<open>A row of the table \<^verbatim>\<open>public.issues\<close>: its sixteen columns.\<close>

record issue_cols =
  issue_id :: uuid
  title :: string
  description :: string
  category_id :: "uuid option"
  department_id :: "uuid option"
  severity :: severity
  status :: status
  anonymous_token :: string
  reporter_id :: "uuid option"
  assigned_to :: "uuid option"
  location :: "string option"
  attachments :: json
  metadata :: json
  created_at :: timestamp
  updated_at :: timestamp
  resolved_at :: "timestamp option"

text \<open>
  \<^verbatim>\<open>Issue\<close> (and \<^verbatim>\<open>DatabaseIssue\<close>): the columns and the joined data. The field
  \<^verbatim>\<open>updates\<close> is present only in the result of \<^verbatim>\<open>trackIssueByToken\<close>.
\<close>

record Issue = issue_cols +
  category :: "IssueCategory option"
  department :: "Department option"
  assigned_user :: "Profile option"
  updates :: "IssueUpdate list option"

text \<open>
  \<^verbatim>\<open>Partial<Issue>\<close>, the argument of \<^verbatim>\<open>createIssue\<close> and \<^verbatim>\<open>updateIssue\<close>:
  every column is optional (\<open>None\<close> is a key that is absent or undefined).
\<close>

record PartialIssue =
  p_id :: "uuid option"
  p_title :: "string option"
  p_description :: "string option"
  p_category_id :: "uuid option"
  p_department_id :: "uuid option"
  p_severity :: "severity option"
  p_status :: "status option"
  p_anonymous_token :: "string option"
  p_reporter_id :: "uuid option"
  p_assigned_to :: "uuid option"
  p_location :: "string option"
  p_attachments :: "json option"
  p_metadata :: "json option"
  p_created_at :: "timestamp option"
  p_updated_at :: "timestamp option"
  p_resolved_at :: "timestamp option"

section \<open>The remote data store\<close>

text \<open>
  The tables of the migration, and the account of the current session
  (\<^verbatim>\<open>auth.uid()\<close>).
\<close>

record backend =
  tbl_departments :: "Department list"
  tbl_issue_categories :: "IssueCategory list"
  tbl_issues :: "issue_cols list"
  tbl_issue_updates :: "IssueUpdate list"
  tbl_anonymous_tokens :: "AnonymousToken list"
  tbl_profiles :: "Profile list"
  auth_uid :: "uuid option"

text \<open>The error object of the client library: a message and a structured code.\<close>

record pg_error =
  message :: string
  code :: string

text \<open>What every call of the client library resolves to: \<^verbatim>\<open>{ data, error }\<close>.\<close>

datatype 'a response = Response (data: "'a option") (error: "pg_error option")

text \<open>
  A request either fails in transport, with the error the client library reports, or
  reaches the data store and returns its answer.
\<close>

definition request :: "pg_error option \<Rightarrow> 'a response \<Rightarrow> 'a response" where
  "request fault r = (case fault of Some e \<Rightarrow> Response None (Some e) | None \<Rightarrow> r)"

definition pgrst116 :: pg_error where
  "pgrst116 = \<lparr>message = ''JSON object requested, multiple (or no) rows returned'',
               code = ''PGRST116''\<rparr>"

text \<open>
  \<^verbatim>\<open>.single()\<close>: the result must be exactly one row; with no row or several rows
  the call resolves to an error and no data.
\<close>

fun single :: "'a list \<Rightarrow> 'a response" where
  "single [x] = Response (Some x) None"
| "single xs = Response None (Some pgrst116)"

definition not_null_violation :: "string \<Rightarrow> pg_error" where
  "not_null_violation col =
     \<lparr>message = ''null value in column '' @ col @ '' violates not-null constraint'',
      code = ''23502''\<rparr>"

definition foreign_key_violation :: "string \<Rightarrow> pg_error" where
  "foreign_key_violation col =
     \<lparr>message = ''insert or update violates foreign key constraint on '' @ col,
      code = ''23503''\<rparr>"

definition unique_violation :: "string \<Rightarrow> pg_error" where
  "unique_violation col =
     \<lparr>message = ''duplicate key value violates unique constraint on '' @ col,
      code = ''23505''\<rparr>"

subsection \<open>Joins\<close>

definition find_category :: "backend \<Rightarrow> uuid option \<Rightarrow> IssueCategory option" where
  "find_category be c =
     (case c of None \<Rightarrow> None
      | Some k \<Rightarrow> find (\<lambda>x. cat_id x = k) (tbl_issue_categories be))"

definition find_department :: "backend \<Rightarrow> uuid option \<Rightarrow> Department option" where
  "find_department be d =
     (case d of None \<Rightarrow> None
      | Some k \<Rightarrow> find (\<lambda>x. dept_id x = k) (tbl_departments be))"

definition find_profile :: "backend \<Rightarrow> uuid option \<Rightarrow> Profile option" where
  "find_profile be u =
     (case u of None \<Rightarrow> None
      | Some k \<Rightarrow> find (\<lambda>x. user_id x = k) (tbl_profiles be))"

text \<open>
  The updates of an issue that the policy \<^verbatim>\<open>Anyone can view public updates\<close>
  lets a reader see.
\<close>

definition public_updates :: "backend \<Rightarrow> uuid \<Rightarrow> IssueUpdate list" where
  "public_updates be i =
     filter (\<lambda>u. upd_issue_id u = i \<and> is_public u) (tbl_issue_updates be)"

text \<open>
  A selected row: all columns (\<^verbatim>\<open>*\<close>) and the embedded relations the query names.
\<close>

definition joined ::
  "IssueCategory option \<Rightarrow> Department option \<Rightarrow> Profile option \<Rightarrow>
   IssueUpdate list option \<Rightarrow> issue_cols \<Rightarrow> Issue" where
  "joined c d a u r =
     \<lparr>issue_id = issue_id r, title = title r, description = description r,
      category_id = category_id r, department_id = department_id r,
      severity = severity r, status = status r, anonymous_token = anonymous_token r,
      reporter_id = reporter_id r, assigned_to = assigned_to r, location = location r,
      attachments = attachments r, metadata = metadata r, created_at = created_at r,
      updated_at = updated_at r, resolved_at = resolved_at r,
      category = c, department = d, assigned_user = a, updates = u\<rparr>"

text \<open>\<^verbatim>\<open>*, category:issue_categories(*), department:departments(*), assigned_user:profiles!assigned_to(*)\<close>\<close>

definition select_with_assignee :: "backend \<Rightarrow> issue_cols \<Rightarrow> Issue" where
  "select_with_assignee be r =
     joined (find_category be (category_id r)) (find_department be (department_id r))
       (find_profile be (assigned_to r)) None r"

text \<open>\<^verbatim>\<open>*, category:issue_categories(*), department:departments(*)\<close>\<close>

definition select_plain :: "backend \<Rightarrow> issue_cols \<Rightarrow> Issue" where
  "select_plain be r =
     joined (find_category be (category_id r)) (find_department be (department_id r))
       None None r"

text \<open>\<^verbatim>\<open>*, category:issue_categories(*), department:departments(*), updates:issue_updates(*)\<close>\<close>

definition select_with_updates :: "backend \<Rightarrow> issue_cols \<Rightarrow> Issue" where
  "select_with_updates be r =
     joined (find_category be (category_id r)) (find_department be (department_id r))
       None (Some (public_updates be (issue_id r))) r"

text \<open>\<^verbatim>\<open>.order('created_at', { ascending: false })\<close>\<close>

definition order_created_at_desc :: "issue_cols list \<Rightarrow> issue_cols list" where
  "order_created_at_desc rows = rev (sort_key created_at rows)"

section \<open>The state of the client\<close>

datatype variant = Default | Destructive

record toast =
  toast_title :: string
  toast_description :: "string option"
  toast_variant :: variant

text \<open>
  The state of the hook \<^verbatim>\<open>useIssues\<close> (\<^verbatim>\<open>issues\<close>, \<^verbatim>\<open>categories\<close>,
  \<^verbatim>\<open>departments\<close>, \<^verbatim>\<open>loading\<close>) and the effects of the page it lives in: the
  notifications shown by \<^verbatim>\<open>toast\<close>, the lines written by \<^verbatim>\<open>console.error\<close>
  and the browser's \<^verbatim>\<open>localStorage\<close>.
\<close>

record client =
  issues :: "Issue list"
  categories :: "IssueCategory list"
  departments :: "Department list"
  loading :: bool
  toasts :: "toast list"
  console :: "(string \<times> pg_error) list"
  localStorage :: "(string \<times> string) list"

definition show_toast :: "toast \<Rightarrow> client \<Rightarrow> client" where
  "show_toast t cl = cl\<lparr>toasts := toasts cl @ [t]\<rparr>"

definition console_error :: "string \<Rightarrow> pg_error \<Rightarrow> client \<Rightarrow> client" where
  "console_error label e cl = cl\<lparr>console := console cl @ [(label, e)]\<rparr>"

definition setItem :: "string \<Rightarrow> string \<Rightarrow> client \<Rightarrow> client" where
  "setItem k v cl =
     cl\<lparr>localStorage := (k, v) # filter (\<lambda>kv. fst kv \<noteq> k) (localStorage cl)\<rparr>"

section \<open>The data-access hook (\<^verbatim>\<open>hooks/useIssues.ts\<close>)\<close>

text \<open>\<^verbatim>\<open>Array.isArray(x) ? x : []\<close>\<close>

definition array_or_empty :: "json \<Rightarrow> json" where
  "array_or_empty j = (case j of JArr xs \<Rightarrow> JArr xs | _ \<Rightarrow> JArr [])"

text \<open>\<^verbatim>\<open>x || {}\<close>: the falsy values are replaced.\<close>

definition or_empty_object :: "json \<Rightarrow> json" where
  "or_empty_object j =
     (case j of
        JNull \<Rightarrow> JObj []
      | JBool b \<Rightarrow> (if b then JBool b else JObj [])
      | JNum n \<Rightarrow> (if n = 0 then JObj [] else JNum n)
      | JStr s \<Rightarrow> (if s = [] then JObj [] else JStr s)
      | _ \<Rightarrow> j)"

text \<open>
  \<^verbatim>\<open>typeof x === 'object' ? x : {}\<close>: null, arrays and objects have the type
  \<^verbatim>\<open>'object'\<close>.
\<close>

definition object_or_empty :: "json \<Rightarrow> json" where
  "object_or_empty j =
     (case j of JNull \<Rightarrow> JNull | JArr xs \<Rightarrow> JArr xs | JObj kv \<Rightarrow> JObj kv | _ \<Rightarrow> JObj [])"

subsection \<open>\<^verbatim>\<open>fetchIssues\<close>\<close>

definition transform_fetched :: "Issue \<Rightarrow> Issue" where
  "transform_fetched item =
     item\<lparr>attachments := array_or_empty (attachments item),
          metadata := or_empty_object (metadata item)\<rparr>"

definition query_issues :: "pg_error option \<Rightarrow> backend \<Rightarrow> Issue list response" where
  "query_issues fault be =
     request fault
       (Response (Some (map (select_with_assignee be) (order_created_at_desc (tbl_issues be))))
          None)"

definition fetchIssues :: "pg_error option \<Rightarrow> backend \<Rightarrow> client \<Rightarrow> client" where
  "fetchIssues fault be cl =
     (let r = query_issues fault be in
      case error r of
        Some e \<Rightarrow>
          show_toast
            \<lparr>toast_title = ''Error loading issues'', toast_description = Some (message e),
             toast_variant = Destructive\<rparr>
            (console_error ''Error fetching issues:'' e cl)
      | None \<Rightarrow>
          cl\<lparr>issues := map transform_fetched (case data r of None \<Rightarrow> [] | Some xs \<Rightarrow> xs)\<rparr>)"

subsection \<open>\<^verbatim>\<open>fetchCategories\<close> and \<^verbatim>\<open>fetchDepartments\<close>\<close>

definition query_categories :: "pg_error option \<Rightarrow> backend \<Rightarrow> IssueCategory list response" where
  "query_categories fault be =
     request fault (Response (Some (sort_key cat_name (tbl_issue_categories be))) None)"

definition fetchCategories :: "pg_error option \<Rightarrow> backend \<Rightarrow> client \<Rightarrow> client" where
  "fetchCategories fault be cl =
     (let r = query_categories fault be in
      case error r of
        Some e \<Rightarrow> console_error ''Error fetching categories:'' e cl
      | None \<Rightarrow> cl\<lparr>categories := (case data r of None \<Rightarrow> [] | Some xs \<Rightarrow> xs)\<rparr>)"

definition query_departments :: "pg_error option \<Rightarrow> backend \<Rightarrow> Department list response" where
  "query_departments fault be =
     request fault (Response (Some (sort_key dept_name (tbl_departments be))) None)"

definition fetchDepartments :: "pg_error option \<Rightarrow> backend \<Rightarrow> client \<Rightarrow> client" where
  "fetchDepartments fault be cl =
     (let r = query_departments fault be in
      case error r of
        Some e \<Rightarrow> console_error ''Error fetching departments:'' e cl
      | None \<Rightarrow> cl\<lparr>departments := (case data r of None \<Rightarrow> [] | Some xs \<Rightarrow> xs)\<rparr>)"

subsection \<open>\<^verbatim>\<open>createIssue\<close>\<close>

text \<open>
  What one call meets and cannot choose: the answer of the remote procedure
  \<^verbatim>\<open>generate_anonymous_token\<close> (random bytes, encoded, or an error), a failure of the
  request that follows, the clock of the data store (\<^verbatim>\<open>now()\<close>) and the
  identifier it draws (\<^verbatim>\<open>gen_random_uuid()\<close>).
\<close>

record env =
  rpc_result :: "string response"
  fault :: "pg_error option"
  db_now :: timestamp
  db_uuid :: uuid

record insertData =
  ins_title :: "string option"
  ins_description :: "string option"
  ins_category_id :: "uuid option"
  ins_department_id :: "uuid option"
  ins_severity :: "severity option"
  ins_location :: "string option"
  ins_anonymous_token :: "string option"

definition insertData_of :: "string option \<Rightarrow> PartialIssue \<Rightarrow> insertData" where
  "insertData_of tokenData issueData =
     \<lparr>ins_title = p_title issueData,
      ins_description = p_description issueData,
      ins_category_id = p_category_id issueData,
      ins_department_id = p_department_id issueData,
      ins_severity = p_severity issueData,
      ins_location = p_location issueData,
      ins_anonymous_token = tokenData\<rparr>"

text \<open>
  \<^verbatim>\<open>INSERT INTO public.issues\<close> of the columns sent: the others take their
  defaults, and the constraints of the table decide whether the row is accepted. The
  policy \<^verbatim>\<open>Anyone can create issues\<close> accepts every row.
\<close>

definition insert_issue :: "timestamp \<Rightarrow> uuid \<Rightarrow> insertData \<Rightarrow> backend \<Rightarrow> pg_error + issue_cols" where
  "insert_issue now new_id d be =
     (case ins_title d of
        None \<Rightarrow> Inl (not_null_violation ''title'')
      | Some t \<Rightarrow>
     (case ins_description d of
        None \<Rightarrow> Inl (not_null_violation ''description'')
      | Some ds \<Rightarrow>
     (case ins_severity d of
        None \<Rightarrow> Inl (not_null_violation ''severity'')
      | Some sv \<Rightarrow>
     (case ins_anonymous_token d of
        None \<Rightarrow> Inl (not_null_violation ''anonymous_token'')
      | Some tk \<Rightarrow>
        if list_ex (\<lambda>r. issue_id r = new_id) (tbl_issues be)
          then Inl (unique_violation ''id'')
        else if list_ex (\<lambda>r. anonymous_token r = tk) (tbl_issues be)
          then Inl (unique_violation ''anonymous_token'')
        else if ins_category_id d \<noteq> None \<and> find_category be (ins_category_id d) = None
          then Inl (foreign_key_violation ''category_id'')
        else if ins_department_id d \<noteq> None \<and> find_department be (ins_department_id d) = None
          then Inl (foreign_key_violation ''department_id'')
        else Inr
          \<lparr>issue_id = new_id, title = t, description = ds,
           category_id = ins_category_id d, department_id = ins_department_id d,
           severity = sv, status = Open, anonymous_token = tk,
           reporter_id = None, assigned_to = None, location = ins_location d,
           attachments = JArr [], metadata = JObj [],
           created_at = now, updated_at = now, resolved_at = None\<rparr>))))"

text \<open>\<^verbatim>\<open>.from('issues').insert([insertData]).select(...).single()\<close>\<close>

definition insert_and_select :: "env \<Rightarrow> insertData \<Rightarrow> backend \<Rightarrow> Issue response \<times> backend" where
  "insert_and_select w d be =
     (case fault w of
        Some e \<Rightarrow> (Response None (Some e), be)
      | None \<Rightarrow>
          (case insert_issue (db_now w) (db_uuid w) d be of
             Inl e \<Rightarrow> (Response None (Some e), be)
           | Inr row \<Rightarrow>
               (let be' = be\<lparr>tbl_issues := tbl_issues be @ [row]\<rparr>
                in (single [select_plain be' row], be'))))"

text \<open>The error thrown when a property of \<^verbatim>\<open>null\<close> is read.\<close>

definition type_error :: pg_error where
  "type_error = \<lparr>message = ''Cannot read properties of null'', code = []\<rparr>"

text \<open>\<^verbatim>\<open>s.slice(-n)\<close>: the last \<open>n\<close> characters.\<close>

definition slice_last :: "nat \<Rightarrow> string \<Rightarrow> string" where
  "slice_last n s = drop (length s - n) s"

definition transform_created :: "Issue \<Rightarrow> Issue" where
  "transform_created d =
     d\<lparr>attachments := array_or_empty (attachments d),
       metadata := object_or_empty (metadata d)\<rparr>"

text \<open>The \<^verbatim>\<open>catch\<close> block of \<^verbatim>\<open>createIssue\<close>: log, notify, throw again.\<close>

definition createIssue_catch :: "pg_error \<Rightarrow> client \<Rightarrow> client" where
  "createIssue_catch e cl =
     show_toast
       \<lparr>toast_title = ''Error reporting issue'', toast_description = Some (message e),
        toast_variant = Destructive\<rparr>
       (console_error ''Error creating issue:'' e cl)"

text \<open>
  When the answer has no error, the steps after the insert run in the order of the
  source: the transformation reads \<^verbatim>\<open>data\<close> (and throws if it is null), the token is
  stored (\<^verbatim>\<open>setItem\<close> turns null into the text \<^verbatim>\<open>null\<close>), the issue is
  prepended, and the description of the notification reads \<^verbatim>\<open>tokenData.slice\<close> (and
  throws if the token is null).
\<close>

definition createIssue ::
  "env \<Rightarrow> PartialIssue \<Rightarrow> backend \<Rightarrow> client \<Rightarrow> (pg_error + Issue \<times> string) \<times> backend \<times> client" where
  "createIssue w issueData be cl =
     (case error (rpc_result w) of
        Some tokenError \<Rightarrow> (Inl tokenError, be, createIssue_catch tokenError cl)
      | None \<Rightarrow>
          (let tokenData = data (rpc_result w);
               (r, be') = insert_and_select w (insertData_of tokenData issueData) be
           in case error r of
                Some e \<Rightarrow> (Inl e, be', createIssue_catch e cl)
              | None \<Rightarrow>
                  (case data r of
                     None \<Rightarrow> (Inl type_error, be', createIssue_catch type_error cl)
                   | Some d \<Rightarrow>
                       (let transformedIssue = transform_created d;
                            cl1 = setItem (''issue_token_'' @ issue_id d)
                                    (case tokenData of Some tok \<Rightarrow> tok | None \<Rightarrow> ''null'') cl;
                            cl2 = cl1\<lparr>issues := transformedIssue # issues cl1\<rparr>
                        in case tokenData of
                             None \<Rightarrow> (Inl type_error, be', createIssue_catch type_error cl2)
                           | Some tok \<Rightarrow>
                               (Inr (transformedIssue, tok), be',
                                show_toast
                                  \<lparr>toast_title = ''Issue reported successfully'',
                                   toast_description =
                                     Some (''Your anonymous tracking ID is: '' @ slice_last 8 tok),
                                   toast_variant = Default\<rparr> cl2)))))"

subsection \<open>\<^verbatim>\<open>updateIssue\<close>\<close>

text \<open>
  The condition of the policies \<^verbatim>\<open>Staff can update issues\<close> and
  \<^verbatim>\<open>Staff can create updates\<close>: the current account has a profile whose role is
  \<^verbatim>\<open>'staff'\<close> or \<^verbatim>\<open>'faculty'\<close>.
\<close>

definition privileged_role :: "string \<Rightarrow> bool" where
  "privileged_role r = (r = ''staff'' \<or> r = ''faculty'')"

definition staff_policy :: "backend \<Rightarrow> bool" where
  "staff_policy be =
     list_ex (\<lambda>p. Some (user_id p) = auth_uid be \<and> privileged_role (role p)) (tbl_profiles be)"

definition patched :: "'a option \<Rightarrow> 'a \<Rightarrow> 'a" where
  "patched new old = (case new of Some v \<Rightarrow> v | None \<Rightarrow> old)"

definition patched_opt :: "'a option \<Rightarrow> 'a option \<Rightarrow> 'a option" where
  "patched_opt new old = (case new of Some v \<Rightarrow> Some v | None \<Rightarrow> old)"

text \<open>
  \<^verbatim>\<open>UPDATE public.issues SET ...\<close> on one row: the columns named in the patch are
  overwritten.
\<close>

definition apply_patch :: "PartialIssue \<Rightarrow> issue_cols \<Rightarrow> issue_cols" where
  "apply_patch u r =
     \<lparr>issue_id = patched (p_id u) (issue_id r),
      title = patched (p_title u) (title r),
      description = patched (p_description u) (description r),
      category_id = patched_opt (p_category_id u) (category_id r),
      department_id = patched_opt (p_department_id u) (department_id r),
      severity = patched (p_severity u) (severity r),
      status = patched (p_status u) (status r),
      anonymous_token = patched (p_anonymous_token u) (anonymous_token r),
      reporter_id = patched_opt (p_reporter_id u) (reporter_id r),
      assigned_to = patched_opt (p_assigned_to u) (assigned_to r),
      location = patched_opt (p_location u) (location r),
      attachments = patched (p_attachments u) (attachments r),
      metadata = patched (p_metadata u) (metadata r),
      created_at = patched (p_created_at u) (created_at r),
      updated_at = patched (p_updated_at u) (updated_at r),
      resolved_at = patched_opt (p_resolved_at u) (resolved_at r)\<rparr>"

text \<open>
  Modelled from the spec: the function \<^verbatim>\<open>update_updated_at_column\<close>, which the
  trigger \<^verbatim>\<open>update_issues_updated_at\<close> executes before every update of a row, is
  declared outside the sources. The data model has \<^verbatim>\<open>updated_at\<close> as the time of
  the last change: the function stamps it with the clock.
\<close>

definition update_updated_at_column :: "timestamp \<Rightarrow> issue_cols \<Rightarrow> issue_cols" where
  "update_updated_at_column now r = r\<lparr>updated_at := now\<rparr>"

text \<open>
  \<^verbatim>\<open>.update(updates).eq('id', issueId)\<close>: the rows the policy lets the account
  update, here none or the one with this identifier, and the constraints on the new row.
  The result is the table and the rows updated.
\<close>

definition update_issue ::
  "timestamp \<Rightarrow> PartialIssue \<Rightarrow> uuid \<Rightarrow> backend \<Rightarrow> pg_error + backend \<times> issue_cols list" where
  "update_issue now u issueId be =
     (if \<not> staff_policy be then Inr (be, [])
      else
        (case find (\<lambda>r. issue_id r = issueId) (tbl_issues be) of
           None \<Rightarrow> Inr (be, [])
         | Some r \<Rightarrow>
             (let r' = update_updated_at_column now (apply_patch u r);
                  others = filter (\<lambda>x. issue_id x \<noteq> issueId) (tbl_issues be)
              in if list_ex (\<lambda>x. issue_id x = issue_id r') others
                   then Inl (unique_violation ''id'')
                 else if list_ex (\<lambda>x. anonymous_token x = anonymous_token r') others
                   then Inl (unique_violation ''anonymous_token'')
                 else if category_id r' \<noteq> None \<and> find_category be (category_id r') = None
                   then Inl (foreign_key_violation ''category_id'')
                 else if department_id r' \<noteq> None \<and> find_department be (department_id r') = None
                   then Inl (foreign_key_violation ''department_id'')
                 else if assigned_to r' \<noteq> None \<and> find_profile be (assigned_to r') = None
                   then Inl (foreign_key_violation ''assigned_to'')
                 else if issue_id r' \<noteq> issueId \<and>
                         (list_ex (\<lambda>x. upd_issue_id x = issueId) (tbl_issue_updates be) \<or>
                          list_ex (\<lambda>x. tok_issue_id x = issueId) (tbl_anonymous_tokens be))
                   then Inl (foreign_key_violation ''issue_id'')
                 else Inr
                   (be\<lparr>tbl_issues :=
                        map (\<lambda>x. if issue_id x = issueId then r' else x) (tbl_issues be)\<rparr>,
                    [r']))))"

text \<open>\<^verbatim>\<open>.update(updates).eq('id', issueId).select(...).single()\<close>\<close>

definition update_and_select ::
  "env \<Rightarrow> PartialIssue \<Rightarrow> uuid \<Rightarrow> backend \<Rightarrow> Issue response \<times> backend" where
  "update_and_select w u issueId be =
     (case fault w of
        Some e \<Rightarrow> (Response None (Some e), be)
      | None \<Rightarrow>
          (case update_issue (db_now w) u issueId be of
             Inl e \<Rightarrow> (Response None (Some e), be)
           | Inr (be', rows) \<Rightarrow> (single (map (select_with_assignee be') rows), be')))"

text \<open>
  The joined profile is kept with its \<^verbatim>\<open>department\<close> only if that has the type
  \<^verbatim>\<open>'object'\<close>.
\<close>

definition transform_assigned_user :: "Profile \<Rightarrow> Profile" where
  "transform_assigned_user p =
     p\<lparr>prof_department :=
         (case prof_department p of
            JNull \<Rightarrow> JNull | JArr xs \<Rightarrow> JArr xs | JObj kv \<Rightarrow> JObj kv | _ \<Rightarrow> JNull)\<rparr>"

definition transform_updated :: "Issue \<Rightarrow> Issue" where
  "transform_updated d =
     d\<lparr>attachments := array_or_empty (attachments d),
       metadata := object_or_empty (metadata d),
       assigned_user := map_option transform_assigned_user (assigned_user d)\<rparr>"

definition updateIssue_catch :: "pg_error \<Rightarrow> client \<Rightarrow> client" where
  "updateIssue_catch e cl =
     show_toast
       \<lparr>toast_title = ''Error updating issue'', toast_description = Some (message e),
        toast_variant = Destructive\<rparr>
       (console_error ''Error updating issue:'' e cl)"

definition updateIssue ::
  "env \<Rightarrow> uuid \<Rightarrow> PartialIssue \<Rightarrow> backend \<Rightarrow> client \<Rightarrow> (pg_error + Issue) \<times> backend \<times> client" where
  "updateIssue w issueId u be cl =
     (let (r, be') = update_and_select w u issueId be
      in case error r of
           Some e \<Rightarrow> (Inl e, be', updateIssue_catch e cl)
         | None \<Rightarrow>
             (case data r of
                None \<Rightarrow> (Inl type_error, be', updateIssue_catch type_error cl)
              | Some d \<Rightarrow>
                  (let transformedIssue = transform_updated d;
                       cl1 = cl\<lparr>issues :=
                               map (\<lambda>issue. if issue_id issue = issueId then transformedIssue
                                             else issue) (issues cl)\<rparr>;
                       cl2 = show_toast
                               \<lparr>toast_title = ''Issue updated successfully'',
                                toast_description = None, toast_variant = Default\<rparr> cl1
                   in (Inr transformedIssue, be', cl2))))"

subsection \<open>\<^verbatim>\<open>trackIssueByToken\<close>\<close>

text \<open>\<^verbatim>\<open>.from('issues').select(...).eq('anonymous_token', token).single()\<close>\<close>

definition query_by_token :: "pg_error option \<Rightarrow> string \<Rightarrow> backend \<Rightarrow> Issue response" where
  "query_by_token flt tok be =
     request flt
       (single (map (select_with_updates be)
                  (filter (\<lambda>r. anonymous_token r = tok) (tbl_issues be))))"

text \<open>
  The result is the \<^verbatim>\<open>data\<close> of the answer, which the type allows to be null, or
  the error thrown again after the log line and the notification.
\<close>

definition trackIssueByToken ::
  "pg_error option \<Rightarrow> string \<Rightarrow> backend \<Rightarrow> client \<Rightarrow> (pg_error + Issue option) \<times> client" where
  "trackIssueByToken flt tok be cl =
     (let r = query_by_token flt tok be
      in case error r of
           Some e \<Rightarrow>
             (Inl e,
              show_toast
                \<lparr>toast_title = ''Issue not found'',
                 toast_description = Some ''Please check your tracking token and try again.'',
                 toast_variant = Destructive\<rparr>
                (console_error ''Error tracking issue:'' e cl))
         | None \<Rightarrow> (Inr (data r), cl))"

subsection \<open>The effect that loads the data\<close>

definition loadData ::
  "pg_error option \<Rightarrow> pg_error option \<Rightarrow> pg_error option \<Rightarrow> backend \<Rightarrow> client \<Rightarrow> client" where
  "loadData f1 f2 f3 be cl =
     (fetchDepartments f3 be (fetchCategories f2 be (fetchIssues f1 be (cl\<lparr>loading := True\<rparr>))))
       \<lparr>loading := False\<rparr>"

section \<open>The pages\<close>

subsection \<open>\<^verbatim>\<open>TrackIssue\<close>: \<^verbatim>\<open>handleTrack\<close>\<close>

record track_page =
  tp_loading :: bool
  trackedIssue :: "Issue option"

definition handleTrack ::
  "pg_error option \<Rightarrow> string \<Rightarrow> backend \<Rightarrow> track_page \<times> client \<Rightarrow> track_page \<times> client" where
  "handleTrack flt tok be pc =
     (let pg = (fst pc)\<lparr>tp_loading := True\<rparr>;
          (res, cl) = trackIssueByToken flt tok be (snd pc)
      in case res of
           Inr (Some issue) \<Rightarrow>
             (pg\<lparr>trackedIssue := Some issue, tp_loading := False\<rparr>,
              show_toast
                \<lparr>toast_title = ''Issue found'',
                 toast_description = Some ''Here's the current status of your report.'',
                 toast_variant = Default\<rparr> cl)
         | Inr None \<Rightarrow>
             (pg\<lparr>tp_loading := False\<rparr>,
              show_toast
                \<lparr>toast_title = ''Issue not found'',
                 toast_description = Some ''Please check your tracking token and try again.'',
                 toast_variant = Destructive\<rparr> cl)
         | Inl e \<Rightarrow>
             (pg\<lparr>tp_loading := False\<rparr>,
              show_toast
                \<lparr>toast_title = ''Error tracking issue'',
                 toast_description =
                   Some ''Please try again or contact support if the problem persists.'',
                 toast_variant = Destructive\<rparr> cl))"

subsection \<open>\<^verbatim>\<open>ReportIssue\<close>: \<^verbatim>\<open>handleSubmit\<close>\<close>

record ReportData =
  r_title :: string
  r_description :: string
  r_category_id :: string
  r_department_id :: "string option"
  r_severity :: severity
  r_location :: "string option"
  anonymous :: bool

text \<open>\<^verbatim>\<open>x || undefined\<close> on an optional string: the empty string is dropped too.\<close>

definition or_undefined :: "string option \<Rightarrow> string option" where
  "or_undefined x = (case x of None \<Rightarrow> None | Some s \<Rightarrow> (if s = [] then None else Some s))"

text \<open>
  The object \<^verbatim>\<open>issueData\<close> that the form passes to \<^verbatim>\<open>createIssue\<close>, from the
  validated form data, the identifier of the signed-in user (\<^verbatim>\<open>user?.id\<close>) and the
  time of the browser as text.
\<close>

definition issueData_of :: "ReportData \<Rightarrow> uuid option \<Rightarrow> string \<Rightarrow> PartialIssue" where
  "issueData_of d user stamp =
     \<lparr>p_id = None,
      p_title = Some (r_title d),
      p_description = Some (r_description d),
      p_category_id = Some (r_category_id d),
      p_department_id = or_undefined (r_department_id d),
      p_severity = Some (r_severity d),
      p_status = Some Open,
      p_anonymous_token = None,
      p_reporter_id = (if anonymous d then None else user),
      p_assigned_to = None,
      p_location = or_undefined (r_location d),
      p_attachments = None,
      p_metadata = Some (JObj [(''submitted_via'', JStr ''web_form''),
                               (''anonymous_submission'', JBool (anonymous d)),
                               (''timestamp'', JStr stamp)]),
      p_created_at = None, p_updated_at = None, p_resolved_at = None\<rparr>"

definition handleSubmit ::
  "env \<Rightarrow> ReportData \<Rightarrow> uuid option \<Rightarrow> string \<Rightarrow> backend \<Rightarrow> client \<Rightarrow> backend \<times> client" where
  "handleSubmit w d user stamp be cl =
     (case createIssue w (issueData_of d user stamp) be cl of
        (Inr created, be', cl') \<Rightarrow>
          (be',
           show_toast
             \<lparr>toast_title = ''Report submitted successfully'',
              toast_description = Some
                (if anonymous d
                 then ''Your anonymous report has been submitted. Save your tracking token for updates.''
                 else ''Your report has been submitted and assigned a tracking number.''),
              toast_variant = Default\<rparr> cl')
      | (Inl e, be', cl') \<Rightarrow>
          (be',
           show_toast
             \<lparr>toast_title = ''Failed to submit report'',
              toast_description =
                Some ''Please try again or contact support if the problem persists.'',
              toast_variant = Destructive\<rparr> cl'))"

subsection \<open>\<^verbatim>\<open>Dashboard\<close>: counts and filters\<close>

definition status_str :: "status \<Rightarrow> string" where
  "status_str s =
     (case s of Open \<Rightarrow> ''open'' | In_progress \<Rightarrow> ''in_progress''
      | Resolved \<Rightarrow> ''resolved'' | Closed \<Rightarrow> ''closed'')"

definition severity_str :: "severity \<Rightarrow> string" where
  "severity_str s =
     (case s of Low \<Rightarrow> ''low'' | Medium \<Rightarrow> ''medium''
      | High \<Rightarrow> ''high'' | Critical \<Rightarrow> ''critical'')"

text \<open>\<^verbatim>\<open>toLowerCase\<close> on the letters of ASCII.\<close>

definition lower_char :: "char \<Rightarrow> char" where
  "lower_char c =
     (let n = (of_char c :: nat) in if 65 \<le> n \<and> n \<le> 90 then char_of (n + 32) else c)"

definition toLowerCase :: "string \<Rightarrow> string" where
  "toLowerCase s = map lower_char s"

fun startsWith :: "string \<Rightarrow> string \<Rightarrow> bool" where
  "startsWith s [] = True"
| "startsWith [] (t # ts) = False"
| "startsWith (c # cs) (t # ts) = (c = t \<and> startsWith cs ts)"

text \<open>\<^verbatim>\<open>s.includes(t)\<close>: \<open>t\<close> occurs in \<open>s\<close> at some position.\<close>

fun includes_str :: "string \<Rightarrow> string \<Rightarrow> bool" where
  "includes_str [] t = (t = [])"
| "includes_str (c # cs) t = (startsWith (c # cs) t \<or> includes_str cs t)"

definition totalIssues :: "Issue list \<Rightarrow> nat" where
  "totalIssues lst = length lst"

definition openIssues :: "Issue list \<Rightarrow> nat" where
  "openIssues lst = length (filter (\<lambda>issue. status_str (status issue) = ''open'') lst)"

definition inProgressIssues :: "Issue list \<Rightarrow> nat" where
  "inProgressIssues lst = length (filter (\<lambda>issue. status_str (status issue) = ''in_progress'') lst)"

definition resolvedIssues :: "Issue list \<Rightarrow> nat" where
  "resolvedIssues lst = length (filter (\<lambda>issue. status_str (status issue) = ''resolved'') lst)"

definition criticalIssues :: "Issue list \<Rightarrow> nat" where
  "criticalIssues lst = length (filter (\<lambda>issue. severity_str (severity issue) = ''critical'') lst)"

definition filteredIssues :: "string \<Rightarrow> string \<Rightarrow> string \<Rightarrow> Issue list \<Rightarrow> Issue list" where
  "filteredIssues searchTerm statusFilter severityFilter lst =
     filter (\<lambda>issue.
        let matchesSearch =
              (includes_str (toLowerCase (title issue)) (toLowerCase searchTerm) \<or>
               includes_str (toLowerCase (description issue)) (toLowerCase searchTerm));
            matchesStatus = (statusFilter = ''all'' \<or> status_str (status issue) = statusFilter);
            matchesSeverity =
              (severityFilter = ''all'' \<or> severity_str (severity issue) = severityFilter)
        in matchesSearch \<and> matchesStatus \<and> matchesSeverity) lst"

subsection \<open>\<^verbatim>\<open>Auth\<close>: sign-up, and the trigger that creates the profile\<close>

record SignUpData =
  su_email :: string
  su_password :: string
  confirmPassword :: string
  firstName :: string
  lastName :: string
  su_role :: string
  su_company :: string
  jobTitle :: string

text \<open>The roles the form offers: \<^verbatim>\<open>z.enum(['employee', 'manager', 'hr'])\<close>.\<close>

definition role_enum :: "string list" where
  "role_enum = [''employee'', ''manager'', ''hr'']"

text \<open>
  \<^verbatim>\<open>signUpSchema\<close>; the test of the e-mail format, which belongs to the validation
  library, is a parameter.
\<close>

definition signUpSchema :: "(string \<Rightarrow> bool) \<Rightarrow> SignUpData \<Rightarrow> bool" where
  "signUpSchema is_email d =
     (is_email (su_email d) \<and> 6 \<le> length (su_password d) \<and>
      1 \<le> length (firstName d) \<and> 1 \<le> length (lastName d) \<and>
      su_role d \<in> set role_enum \<and>
      1 \<le> length (su_company d) \<and> 1 \<le> length (jobTitle d) \<and>
      su_password d = confirmPassword d)"

text \<open>The metadata that \<^verbatim>\<open>handleSignUp\<close> passes to \<^verbatim>\<open>signUp\<close>.\<close>

definition handleSignUp_metadata :: "SignUpData \<Rightarrow> (string \<times> string) list" where
  "handleSignUp_metadata d =
     [(''first_name'', firstName d),
      (''last_name'', lastName d),
      (''role'', su_role d),
      (''company'', su_company d),
      (''job_title'', jobTitle d),
      (''display_name'', firstName d @ '' '' @ lastName d)]"

text \<open>A row of \<^verbatim>\<open>auth.users\<close>, as the trigger reads it.\<close>

record auth_user =
  au_id :: uuid
  au_email :: string
  raw_user_meta_data :: "(string \<times> string) list"

text \<open>\<^verbatim>\<open>split_part(s, '@', 1)\<close>: the text before the first \<^verbatim>\<open>@\<close>.\<close>

definition split_part_at :: "string \<Rightarrow> string" where
  "split_part_at s = takeWhile (\<lambda>c. c \<noteq> CHR ''@'') s"

text \<open>\<^verbatim>\<open>COALESCE(a, b)\<close>\<close>

definition coalesce :: "'a option \<Rightarrow> 'a \<Rightarrow> 'a" where
  "coalesce a b = (case a of Some v \<Rightarrow> v | None \<Rightarrow> b)"

text \<open>
  The row that \<^verbatim>\<open>handle_new_user\<close> inserts into \<^verbatim>\<open>public.profiles\<close>; the
  identifier of the row is drawn by the data store.
\<close>

definition handle_new_user :: "uuid \<Rightarrow> auth_user \<Rightarrow> Profile" where
  "handle_new_user pid new =
     \<lparr>prof_id = pid,
      user_id = au_id new,
      email = au_email new,
      role = coalesce (map_of (raw_user_meta_data new) ''role'') ''employee'',
      display_name =
        Some (coalesce (map_of (raw_user_meta_data new) ''display_name'')
                (split_part_at (au_email new))),
      first_name = map_of (raw_user_meta_data new) ''first_name'',
      last_name = map_of (raw_user_meta_data new) ''last_name'',
      company = map_of (raw_user_meta_data new) ''company'',
      job_title = map_of (raw_user_meta_data new) ''job_title'',
      prof_department = JNull\<rparr>"

text \<open>
  The trigger \<^verbatim>\<open>on_auth_user_created\<close>: after the insert of an account, its
  profile is inserted.
\<close>

definition on_auth_user_created :: "uuid \<Rightarrow> auth_user \<Rightarrow> backend \<Rightarrow> backend" where
  "on_auth_user_created pid new be =
     be\<lparr>tbl_profiles := tbl_profiles be @ [handle_new_user pid new]\<rparr>"

section \<open>Properties\<close>

text \<open>The list is newest first: creation times do not increase along it.\<close>

definition newest_first :: "('a issue_cols_scheme) list \<Rightarrow> bool" where
  "newest_first xs = sorted_wrt (\<lambda>a b. created_at b \<le> created_at a) xs"

text \<open>
  Every issue of the list carries the creation time that the row with its identifier has
  in the data store.
\<close>

definition created_at_agrees :: "backend \<Rightarrow> Issue list \<Rightarrow> bool" where
  "created_at_agrees be xs =
     list_all (\<lambda>i. list_all (\<lambda>r. issue_id r \<noteq> issue_id i \<or> created_at r = created_at i)
                      (tbl_issues be)) xs"

text \<open>The notification of the \<^verbatim>\<open>catch\<close> block of \<^verbatim>\<open>trackIssueByToken\<close>.\<close>

definition not_found_toast :: toast where
  "not_found_toast =
     \<lparr>toast_title = ''Issue not found'',
      toast_description = Some ''Please check your tracking token and try again.'',
      toast_variant = Destructive\<rparr>"

section \<open>Example data\<close>

text \<open>
  A data store with one category and no issue, a fresh client, and the report of the
  end-to-end scenario: an anonymous submission of a broken light.
\<close>

definition ex_category :: IssueCategory where
  "ex_category =
     \<lparr>cat_id = ''c1'', cat_name = ''Maintenance'', cat_description = None,
      color = ''#6366f1'', icon = ''AlertCircle'', cat_created_at = 0\<rparr>"

definition ex_backend :: backend where
  "ex_backend =
     \<lparr>tbl_departments = [], tbl_issue_categories = [ex_category], tbl_issues = [],
      tbl_issue_updates = [], tbl_anonymous_tokens = [], tbl_profiles = [],
      auth_uid = None\<rparr>"

definition ex_client :: client where
  "ex_client =
     \<lparr>issues = [], categories = [], departments = [], loading = False, toasts = [],
      console = [], localStorage = []\<rparr>"

definition ex_env :: env where
  "ex_env =
     \<lparr>rpc_result = Response (Some ''q8Zr1TnYb0c'') None, fault = None, db_now = 5,
      db_uuid = ''i1''\<rparr>"

definition ex_report :: ReportData where
  "ex_report =
     \<lparr>r_title = ''Broken light in lobby'',
      r_description = ''The lobby light has flickered for two weeks and now stays off.'',
      r_category_id = ''c1'', r_department_id = Some [], r_severity = Low,
      r_location = Some [], anonymous = True\<rparr>"

definition ex_input :: PartialIssue where
  "ex_input = issueData_of ex_report None ''2025-08-03T17:45:17.000Z''"

text \<open>A failure of the network, as the client library reports it.\<close>

definition ex_error :: pg_error where
  "ex_error = \<lparr>message = ''TypeError: Failed to fetch'', code = ''ECONNREFUSED''\<rparr>"

text \<open>
  A data store with two issues, and the session of an account whose profile has the role
  \<^verbatim>\<open>'staff'\<close>; a patch that sets only \<^verbatim>\<open>created_at\<close>.
\<close>

definition ex_staff :: Profile where
  "ex_staff =
     \<lparr>prof_id = ''p9'', user_id = ''u9'', email = ''staff@example.com'', role = ''staff'',
      display_name = None, first_name = None, last_name = None, company = None,
      job_title = None, prof_department = JNull\<rparr>"

definition ex_row1 :: issue_cols where
  "ex_row1 =
     \<lparr>issue_id = ''i1'', title = ''Broken light in lobby'',
      description = ''The lobby light has flickered for two weeks and now stays off.'',
      category_id = Some ''c1'', department_id = None, severity = Low, status = Open,
      anonymous_token = ''q8Zr1TnYb0c'', reporter_id = None, assigned_to = None,
      location = None, attachments = JArr [], metadata = JObj [],
      created_at = 1, updated_at = 1, resolved_at = None\<rparr>"

definition ex_row2 :: issue_cols where
  "ex_row2 =
     \<lparr>issue_id = ''i2'', title = ''Broken handrail on staircase'',
      description = ''The handrail on the main staircase is loose and wobbles when used.'',
      category_id = Some ''c1'', department_id = None, severity = High, status = Open,
      anonymous_token = ''Xk2p9LmQw7e'', reporter_id = None, assigned_to = None,
      location = None, attachments = JArr [], metadata = JObj [],
      created_at = 2, updated_at = 2, resolved_at = None\<rparr>"

definition ex_backend2 :: backend where
  "ex_backend2 =
     \<lparr>tbl_departments = [], tbl_issue_categories = [ex_category],
      tbl_issues = [ex_row1, ex_row2], tbl_issue_updates = [], tbl_anonymous_tokens = [],
      tbl_profiles = [ex_staff], auth_uid = Some ''u9''\<rparr>"

definition no_patch :: PartialIssue where
  "no_patch =
     \<lparr>p_id = None, p_title = None, p_description = None, p_category_id = None,
      p_department_id = None, p_severity = None, p_status = None,
      p_anonymous_token = None, p_reporter_id = None, p_assigned_to = None,
      p_location = None, p_attachments = None, p_metadata = None, p_created_at = None,
      p_updated_at = None, p_resolved_at = None\<rparr>"

definition ex_patch :: PartialIssue where
  "ex_patch = no_patch\<lparr>p_created_at := Some 0\<rparr>"

definition ex_env2 :: env where
  "ex_env2 = \<lparr>rpc_result = Response None None, fault = None, db_now = 9, db_uuid = ''i3''\<rparr>"

text \<open>The form data of a sign-up, and of a report that is not anonymous.\<close>

definition ex_signup :: SignUpData where
  "ex_signup =
     \<lparr>su_email = ''ada@example.com'', su_password = ''secret1'',
      confirmPassword = ''secret1'', firstName = ''Ada'', lastName = ''Byron'',
      su_role = ''manager'', su_company = ''Candor'', jobTitle = ''Engineer''\<rparr>"

definition ex_named_input :: PartialIssue where
  "ex_named_input =
     issueData_of (ex_report\<lparr>anonymous := False\<rparr>) (Some ''u1'') ''2025-08-04T09:00:00.000Z''"

definition ex_page :: track_page where
  "ex_page = \<lparr>tp_loading = False, trackedIssue = None\<rparr>"

text \<open>The account that the sign-up creates, with the metadata the page passed.\<close>

definition ex_account :: auth_user where
  "ex_account =
     \<lparr>au_id = ''u2'', au_email = su_email ex_signup,
      raw_user_meta_data = handleSignUp_metadata ex_signup\<rparr>"

text \<open>Calls that meet a network failure; a call that succeeds on the second data store.\<close>

definition ex_env_down :: env where
  "ex_env_down = ex_env\<lparr>fault := Some ex_error\<rparr>"

definition ex_env3 :: env where
  "ex_env3 =
     \<lparr>rpc_result = Response (Some ''Jd7Hs3KfP1z'') None, fault = None, db_now = 9,
      db_uuid = ''i3''\<rparr>"

definition ex_status_patch :: PartialIssue where
  "ex_status_patch = no_patch\<lparr>p_status := Some Resolved\<rparr>"

text \<open>The client after it has fetched the two issues.\<close>

definition ex_client2 :: client where
  "ex_client2 = fetchIssues None ex_backend2 ex_client"


section \<open>Theorems\<close>

lemmas ex_defs = ex_category_def ex_backend_def ex_client_def ex_env_def ex_report_def
  ex_input_def ex_error_def issueData_of_def or_undefined_def

lemmas ex2_defs = ex_staff_def ex_row1_def ex_row2_def ex_backend2_def no_patch_def ex_patch_def
  ex_env2_def ex_signup_def ex_named_input_def ex_page_def ex_account_def ex_env_down_def
  ex_env3_def ex_status_patch_def ex_client2_def

lemmas create_defs = createIssue_def insert_and_select_def insert_issue_def insertData_of_def
  find_category_def find_department_def select_plain_def joined_def transform_created_def
  array_or_empty_def object_or_empty_def setItem_def show_toast_def slice_last_def
  createIssue_catch_def console_error_def Let_def

subsection \<open>What a successful \<^verbatim>\<open>createIssue\<close> has done\<close>

lemma list_ex_filter_empty: "\<not> list_ex P xs \<Longrightarrow> filter P xs = []"
  by (induction xs) auto

lemma insert_issue_row:
  assumes "insert_issue now new_id d be = Inr row"
  shows "ins_title d = Some (title row)"
    and "ins_description d = Some (description row)"
    and "ins_severity d = Some (severity row)"
    and "ins_anonymous_token d = Some (anonymous_token row)"
    and "category_id row = ins_category_id d"
    and "department_id row = ins_department_id d"
    and "location row = ins_location d"
    and "reporter_id row = None"
    and "status row = Open"
    and "created_at row = now"
    and "issue_id row = new_id"
    and "\<not> list_ex (\<lambda>r. anonymous_token r = anonymous_token row) (tbl_issues be)"
    and "\<not> list_ex (\<lambda>r. issue_id r = issue_id row) (tbl_issues be)"
  using assms
  by (auto simp: insert_issue_def split: option.splits if_splits)

lemma insert_and_select_ok:
  assumes "insert_and_select w d be = (r, be')" and "error r = None"
  shows "\<exists>row. insert_issue (db_now w) (db_uuid w) d be = Inr row \<and> fault w = None
            \<and> be' = be\<lparr>tbl_issues := tbl_issues be @ [row]\<rparr>
            \<and> data r = Some (select_plain be' row)"
  using assms
  by (auto simp: insert_and_select_def Let_def split: option.splits sum.splits)

lemma createIssue_success:
  assumes "createIssue w issueData be cl = (Inr (issue, tok), be', cl')"
  shows "\<exists>row. insert_issue (db_now w) (db_uuid w) (insertData_of (Some tok) issueData) be = Inr row
            \<and> rpc_result w = Response (Some tok) None \<and> fault w = None
            \<and> be' = be\<lparr>tbl_issues := tbl_issues be @ [row]\<rparr>
            \<and> issue = transform_created (select_plain be' row)
            \<and> issues cl' = issue # issues cl"
proof -
  obtain r b where rb: "insert_and_select w (insertData_of (data (rpc_result w)) issueData) be = (r, b)"
    by (cases "insert_and_select w (insertData_of (data (rpc_result w)) issueData) be")
  from assms rb have e1: "error (rpc_result w) = None" and e2: "error r = None"
    by (auto simp: createIssue_def Let_def split: option.splits prod.splits)
  from assms rb e1 e2 obtain d where d: "data r = Some d" "data (rpc_result w) = Some tok"
     "issue = transform_created d" "be' = b" "issues cl' = issue # issues cl"
    by (auto simp: createIssue_def Let_def setItem_def show_toast_def split: option.splits prod.splits)
  from insert_and_select_ok[OF rb e2] d e1 show ?thesis
    by (cases "rpc_result w") auto
qed

lemma query_by_token_fresh:
  assumes "\<not> list_ex (\<lambda>r. anonymous_token r = anonymous_token row) (tbl_issues be)"
  shows "query_by_token None (anonymous_token row) (be\<lparr>tbl_issues := tbl_issues be @ [row]\<rparr>)
           = Response (Some (select_with_updates (be\<lparr>tbl_issues := tbl_issues be @ [row]\<rparr>) row)) None"
  using assms by (simp add: query_by_token_def request_def list_ex_filter_empty)

lemma track_after_create:
  assumes "createIssue w issueData be cl = (Inr (issue, tok), be', cl')"
  shows "\<exists>row. insert_issue (db_now w) (db_uuid w) (insertData_of (Some tok) issueData) be = Inr row
          \<and> anonymous_token row = tok
          \<and> be' = be\<lparr>tbl_issues := tbl_issues be @ [row]\<rparr>
          \<and> trackIssueByToken None tok be' c = (Inr (Some (select_with_updates be' row)), c)"
proof -
  from createIssue_success[OF assms] obtain row where
    row: "insert_issue (db_now w) (db_uuid w) (insertData_of (Some tok) issueData) be = Inr row"
    and be': "be' = be\<lparr>tbl_issues := tbl_issues be @ [row]\<rparr>" by blast
  from insert_issue_row(4)[OF row] have tk: "anonymous_token row = tok"
    by (simp add: insertData_of_def)
  from query_by_token_fresh[OF insert_issue_row(12)[OF row]] tk be'
  have "trackIssueByToken None tok be' c = (Inr (Some (select_with_updates be' row)), c)"
    by (simp add: trackIssueByToken_def)
  with row tk be' show ?thesis by blast
qed

lemma ex_create:
  "\<exists>issue. fst (createIssue ex_env ex_input ex_backend ex_client) = Inr (issue, ''q8Zr1TnYb0c'')"
  by (simp add: ex_defs create_defs)

lemma ex_create_full:
  "\<exists>issue be' cl'.
     createIssue ex_env ex_input ex_backend ex_client = (Inr (issue, ''q8Zr1TnYb0c''), be', cl')"
proof -
  from ex_create obtain issue where
    "fst (createIssue ex_env ex_input ex_backend ex_client) = Inr (issue, ''q8Zr1TnYb0c'')" ..
  then show ?thesis
    by (cases "createIssue ex_env ex_input ex_backend ex_client") auto
qed

subsection \<open>Creating an issue and tracking it\<close>

text \<open>
  The call succeeds on every input that has a title, a description, a severity and a
  category of the data store (and no department, or one of the data store), when the
  token and the identifier drawn are new and both requests reach the store.
\<close>

lemma createIssue_succeeds:
  assumes "p_title i = Some t" "p_description i = Some ds" "p_severity i = Some sv"
      and "p_category_id i = Some c" "find_category be (Some c) \<noteq> None"
      and "p_department_id i = None \<or> find_department be (p_department_id i) \<noteq> None"
      and "rpc_result w = Response (Some tok) None" "fault w = None"
      and "\<not> list_ex (\<lambda>r. issue_id r = db_uuid w) (tbl_issues be)"
      and "\<not> list_ex (\<lambda>r. anonymous_token r = tok) (tbl_issues be)"
  shows "\<exists>issue be' cl'. createIssue w i be cl = (Inr (issue, tok), be', cl')"
  using assms
  by (auto simp: createIssue_def insert_and_select_def insert_issue_def insertData_of_def Let_def)

text \<open>
  C2. When \<^verbatim>\<open>createIssue\<close> has returned an issue and a token, a call of
  \<^verbatim>\<open>trackIssueByToken\<close> with that token that follows immediately (on the data store
  as \<^verbatim>\<open>createIssue\<close> left it, the request reaching the store) returns an issue
  whose title, description, severity and category are those of the input.
\<close>

theorem create_then_track_roundtrip:
  assumes "createIssue w issueData be cl = (Inr (issue, tok), be', cl')"
  shows "\<exists>found. trackIssueByToken None tok be' c = (Inr (Some found), c)
           \<and> p_title issueData = Some (title found)
           \<and> p_description issueData = Some (description found)
           \<and> p_severity issueData = Some (severity found)
           \<and> category_id found = p_category_id issueData
           \<and> category found = find_category be' (p_category_id issueData)"
proof -
  from track_after_create[OF assms, of c] obtain row where
    row: "insert_issue (db_now w) (db_uuid w) (insertData_of (Some tok) issueData) be = Inr row"
    and tr: "trackIssueByToken None tok be' c = (Inr (Some (select_with_updates be' row)), c)"
    by blast
  from insert_issue_row[OF row] tr show ?thesis
    by (simp add: insertData_of_def select_with_updates_def joined_def)
qed

theorem create_then_track_roundtrip_witness:
  "\<exists>issue be' cl'.
      createIssue ex_env ex_input ex_backend ex_client = (Inr (issue, ''q8Zr1TnYb0c''), be', cl')
    \<and> (\<exists>found. trackIssueByToken None ''q8Zr1TnYb0c'' be' ex_client = (Inr (Some found), ex_client)
           \<and> title found = ''Broken light in lobby''
           \<and> description found = ''The lobby light has flickered for two weeks and now stays off.''
           \<and> severity found = Low
           \<and> category_id found = Some ''c1'')"
proof -
  from ex_create_full obtain issue be' cl' where
    h: "createIssue ex_env ex_input ex_backend ex_client = (Inr (issue, ''q8Zr1TnYb0c''), be', cl')"
    by blast
  from create_then_track_roundtrip[OF h, of ex_client] obtain found where
    "trackIssueByToken None ''q8Zr1TnYb0c'' be' ex_client = (Inr (Some found), ex_client)"
    "p_title ex_input = Some (title found)"
    "p_description ex_input = Some (description found)"
    "p_severity ex_input = Some (severity found)"
    "category_id found = p_category_id ex_input" by blast
  with h show ?thesis by (auto simp: ex_defs)
qed

subsection \<open>A failed fetch\<close>

text \<open>
  C5. When \<^verbatim>\<open>fetchIssues\<close> fails, it logs the error and shows one destructive
  notification, and the issue list, like the rest of the state of the hook, is what it was
  before the call; a fetch that succeeds replaces the list by the rows of the data store.
\<close>

theorem fetchIssues_failure_leaves_state:
  "issues (fetchIssues (Some e) be cl) = issues cl
   \<and> categories (fetchIssues (Some e) be cl) = categories cl
   \<and> departments (fetchIssues (Some e) be cl) = departments cl
   \<and> loading (fetchIssues (Some e) be cl) = loading cl
   \<and> localStorage (fetchIssues (Some e) be cl) = localStorage cl
   \<and> toasts (fetchIssues (Some e) be cl) =
       toasts cl @ [\<lparr>toast_title = ''Error loading issues'',
                     toast_description = Some (message e), toast_variant = Destructive\<rparr>]
   \<and> console (fetchIssues (Some e) be cl) = console cl @ [(''Error fetching issues:'', e)]
   \<and> fetchIssues None be cl =
       cl\<lparr>issues := map transform_fetched
               (map (select_with_assignee be) (order_created_at_desc (tbl_issues be)))\<rparr>"
  by (simp add: fetchIssues_def query_issues_def request_def show_toast_def console_error_def)

subsection \<open>The status filter of the dashboard\<close>

lemma includes_empty: "includes_str s []"
  by (induction s) auto

lemma status_str_inj: "(status_str a = status_str b) = (a = b)"
  by (cases a; cases b) (simp_all add: status_str_def)

lemma status_str_not_all: "status_str a \<noteq> ''all''"
  by (cases a) (simp_all add: status_str_def)

lemma filteredIssues_status_only:
  "filteredIssues [] (status_str X) ''all'' lst = filter (\<lambda>i. status i = X) lst"
  by (simp add: filteredIssues_def status_str_inj status_str_not_all Let_def toLowerCase_def
      includes_empty)

lemma filteredIssues_status_commutes:
  "filteredIssues st (status_str X) sv lst
     = filter (\<lambda>i. status i = X) (filteredIssues st ''all'' sv lst)"
  by (rule sym, simp add: filteredIssues_def status_str_inj status_str_not_all Let_def)
     (rule filter_cong, auto)

lemma count_partition:
  "length (filter (\<lambda>i. status i = Open) lst) + length (filter (\<lambda>i. status i = In_progress) lst)
   + length (filter (\<lambda>i. status i = Resolved) lst) + length (filter (\<lambda>i. status i = Closed) lst)
   = length (lst :: Issue list)"
proof (induction lst)
  case Nil
  then show ?case by simp
next
  case (Cons a lst)
  then show ?case by (cases "status a") simp_all
qed

lemma status_str_literals:
  "(status_str s = ''open'') = (s = Open)"
  "(status_str s = ''in_progress'') = (s = In_progress)"
  "(status_str s = ''resolved'') = (s = Resolved)"
  "(status_str s = ''closed'') = (s = Closed)"
  by (cases s; simp add: status_str_def)+

lemma dashboard_counts:
  "openIssues lst + inProgressIssues lst + resolvedIssues lst
     + length (filteredIssues [] ''closed'' ''all'' lst) = totalIssues lst"
proof -
  have "filteredIssues [] ''closed'' ''all'' lst = filter (\<lambda>i. status i = Closed) lst"
    using filteredIssues_status_only[of Closed lst] by (simp add: status_str_def)
  with count_partition[of lst] show ?thesis
    by (simp add: openIssues_def inProgressIssues_def resolvedIssues_def totalIssues_def
        status_str_literals)
qed

text \<open>
  C6. For every issue list and every status \<open>X\<close>, the dashboard's filter set to \<open>X\<close>
  (no search term, every severity) returns exactly the issues whose status is \<open>X\<close>; with
  a search term or a severity chosen as well it returns exactly the issues of status \<open>X\<close>
  among those the other two filters let through; and the number of issues of status \<open>X\<close>
  plus the numbers for the three other statuses is the length of the list. So the three
  counts the dashboard shows and the count of the closed issues add up to its total.
\<close>

theorem status_filter_exact_and_partition:
  "filteredIssues [] (status_str X) ''all'' lst = filter (\<lambda>i. status i = X) lst
   \<and> filteredIssues st (status_str X) sv lst
       = filter (\<lambda>i. status i = X) (filteredIssues st ''all'' sv lst)
   \<and> length (filteredIssues [] (status_str X) ''all'' lst)
       + sum_list (map (\<lambda>Y. length (filteredIssues [] (status_str Y) ''all'' lst))
           (removeAll X [Open, In_progress, Resolved, Closed]))
       = length lst
   \<and> openIssues lst + inProgressIssues lst + resolvedIssues lst
       + length (filteredIssues [] ''closed'' ''all'' lst) = totalIssues lst"
proof -
  have "length (filteredIssues [] (status_str X) ''all'' lst)
       + sum_list (map (\<lambda>Y. length (filteredIssues [] (status_str Y) ''all'' lst))
           (removeAll X [Open, In_progress, Resolved, Closed]))
       = length lst"
    using count_partition[of lst] by (cases X) (simp_all add: filteredIssues_status_only)
  then show ?thesis
    using filteredIssues_status_only filteredIssues_status_commutes dashboard_counts by blast
qed

subsection \<open>An anonymous report\<close>

text \<open>
  C7. An issue created by \<^verbatim>\<open>createIssue\<close> from an input without
  \<^verbatim>\<open>reporter_id\<close> is found by \<^verbatim>\<open>trackIssueByToken\<close> with the token
  returned, and the issue found has no \<^verbatim>\<open>reporter_id\<close>.
\<close>

theorem anonymous_issue_tracked_without_reporter:
  assumes "p_reporter_id issueData = None"
      and "createIssue w issueData be cl = (Inr (issue, tok), be', cl')"
  shows "\<exists>found. trackIssueByToken None tok be' c = (Inr (Some found), c)
           \<and> anonymous_token found = tok
           \<and> issue_id found = issue_id issue
           \<and> reporter_id found = None
           \<and> reporter_id issue = None"
proof -
  from track_after_create[OF assms(2), of c] obtain row where
    row: "insert_issue (db_now w) (db_uuid w) (insertData_of (Some tok) issueData) be = Inr row"
    and tk: "anonymous_token row = tok"
    and be': "be' = be\<lparr>tbl_issues := tbl_issues be @ [row]\<rparr>"
    and tr: "trackIssueByToken None tok be' c = (Inr (Some (select_with_updates be' row)), c)"
    by blast
  from createIssue_success[OF assms(2)] row be'
  have iss: "issue = transform_created (select_plain be' row)" by auto
  from insert_issue_row(8)[OF row] tk tr iss show ?thesis
    by (simp add: select_with_updates_def select_plain_def transform_created_def joined_def)
qed

theorem anonymous_issue_tracked_without_reporter_witness:
  "p_reporter_id ex_input = None
   \<and> (\<exists>issue be' cl'.
      createIssue ex_env ex_input ex_backend ex_client = (Inr (issue, ''q8Zr1TnYb0c''), be', cl')
    \<and> (\<exists>found. trackIssueByToken None ''q8Zr1TnYb0c'' be' ex_client = (Inr (Some found), ex_client)
           \<and> anonymous_token found = ''q8Zr1TnYb0c''
           \<and> reporter_id found = None))"
proof -
  have a: "p_reporter_id ex_input = None" by (simp add: ex_defs)
  from ex_create_full obtain issue be' cl' where
    h: "createIssue ex_env ex_input ex_backend ex_client = (Inr (issue, ''q8Zr1TnYb0c''), be', cl')"
    by blast
  from anonymous_issue_tracked_without_reporter[OF a h, of ex_client] a h show ?thesis by blast
qed

subsection \<open>The token and the table of tokens\<close>

text \<open>
  C3, as amended. After a successful \<^verbatim>\<open>createIssue\<close> the token returned is the
  \<^verbatim>\<open>anonymous_token\<close> of the issue created, which is the one row of the table of
  issues with that token; the table \<^verbatim>\<open>anonymous_tokens\<close> is what it was before
  the call.
\<close>

theorem createIssue_token_is_lookup_key_only:
  assumes "createIssue w issueData be cl = (Inr (issue, tok), be', cl')"
  shows "anonymous_token issue = tok
       \<and> map issue_id (filter (\<lambda>r. anonymous_token r = tok) (tbl_issues be')) = [issue_id issue]
       \<and> tbl_anonymous_tokens be' = tbl_anonymous_tokens be"
proof -
  from createIssue_success[OF assms] obtain row where
    row: "insert_issue (db_now w) (db_uuid w) (insertData_of (Some tok) issueData) be = Inr row"
    and be': "be' = be\<lparr>tbl_issues := tbl_issues be @ [row]\<rparr>"
    and iss: "issue = transform_created (select_plain be' row)" by blast
  from insert_issue_row(4)[OF row] have tk: "anonymous_token row = tok"
    by (simp add: insertData_of_def)
  from insert_issue_row(12)[OF row] tk have "filter (\<lambda>r. anonymous_token r = tok) (tbl_issues be) = []"
    by (simp add: list_ex_filter_empty)
  with tk be' iss show ?thesis
    by (simp add: select_plain_def transform_created_def joined_def)
qed

theorem createIssue_token_is_lookup_key_only_witness:
  "\<exists>issue be' cl'.
      createIssue ex_env ex_input ex_backend ex_client = (Inr (issue, ''q8Zr1TnYb0c''), be', cl')
    \<and> anonymous_token issue = ''q8Zr1TnYb0c''
    \<and> map issue_id (filter (\<lambda>r. anonymous_token r = ''q8Zr1TnYb0c'') (tbl_issues be')) = [issue_id issue]
    \<and> tbl_anonymous_tokens be' = []"
proof -
  from ex_create_full obtain issue be' cl' where
    h: "createIssue ex_env ex_input ex_backend ex_client = (Inr (issue, ''q8Zr1TnYb0c''), be', cl')"
    by blast
  have "tbl_anonymous_tokens ex_backend = []" by (simp add: ex_defs)
  with createIssue_token_is_lookup_key_only[OF h] h show ?thesis by auto
qed

text \<open>
  C3 as stated fails: on the example data \<^verbatim>\<open>createIssue\<close> succeeds and returns the
  token, and the table \<^verbatim>\<open>anonymous_tokens\<close> has no row at all.
\<close>

theorem createIssue_inserts_no_token_row_counterexample:
  "\<not> isl (fst (createIssue ex_env ex_input ex_backend ex_client))
   \<and> snd (projr (fst (createIssue ex_env ex_input ex_backend ex_client))) = ''q8Zr1TnYb0c''
   \<and> tbl_anonymous_tokens (fst (snd (createIssue ex_env ex_input ex_backend ex_client))) = []"
  by (simp add: ex_defs create_defs)

subsection \<open>The fields \<^verbatim>\<open>createIssue\<close> sends\<close>

lemma insertData_of_agree:
  assumes "p_title i1 = p_title i2" "p_description i1 = p_description i2"
      "p_category_id i1 = p_category_id i2" "p_department_id i1 = p_department_id i2"
      "p_severity i1 = p_severity i2" "p_location i1 = p_location i2"
  shows "insertData_of t i1 = insertData_of t i2"
  using assms by (simp add: insertData_of_def)

lemma createIssue_only_insertData:
  assumes "insertData_of (data (rpc_result w)) i1 = insertData_of (data (rpc_result w)) i2"
  shows "createIssue w i1 be cl = createIssue w i2 be cl"
  unfolding createIssue_def Let_def assms ..

lemma created_row_without_reporter:
  assumes "createIssue w i be cl = (Inr (issue, tok), be', cl')"
  shows "reporter_id issue = None \<and>
         map reporter_id (filter (\<lambda>r. anonymous_token r = tok) (tbl_issues be')) = [None]"
proof -
  from createIssue_success[OF assms] obtain row where
    row: "insert_issue (db_now w) (db_uuid w) (insertData_of (Some tok) i) be = Inr row"
    and be': "be' = be\<lparr>tbl_issues := tbl_issues be @ [row]\<rparr>"
    and iss: "issue = transform_created (select_plain be' row)" by blast
  from insert_issue_row(4)[OF row] have tk: "anonymous_token row = tok"
    by (simp add: insertData_of_def)
  from insert_issue_row(12)[OF row] tk have "filter (\<lambda>r. anonymous_token r = tok) (tbl_issues be) = []"
    by (simp add: list_ex_filter_empty)
  with tk be' iss insert_issue_row(8)[OF row] show ?thesis
    by (simp add: select_plain_def transform_created_def joined_def)
qed

text \<open>
  C9. Two inputs of \<^verbatim>\<open>createIssue\<close> that agree on title, description, category,
  department, severity and location give the same row to insert, and the same call: the
  same result, the same data store and the same client state, whatever their
  \<^verbatim>\<open>reporter_id\<close>, status, metadata and attachments. The row stored by a call that
  succeeds has no \<^verbatim>\<open>reporter_id\<close>, also when the input had one.
\<close>

theorem createIssue_sends_six_fields_only:
  assumes "p_title i1 = p_title i2" "p_description i1 = p_description i2"
      "p_category_id i1 = p_category_id i2" "p_department_id i1 = p_department_id i2"
      "p_severity i1 = p_severity i2" "p_location i1 = p_location i2"
  shows "insertData_of t i1 = insertData_of t i2
       \<and> createIssue w i1 be cl = createIssue w i2 be cl
       \<and> (createIssue w i1 be cl = (Inr (issue, tok), be', cl') \<longrightarrow>
            reporter_id issue = None \<and>
            map reporter_id (filter (\<lambda>r. anonymous_token r = tok) (tbl_issues be')) = [None])"
  using insertData_of_agree[OF assms] createIssue_only_insertData[of w i1 i2 be cl]
    created_row_without_reporter[of w i1 be cl issue tok be' cl']
  by blast

text \<open>
  The report form filled in twice with the same text, once signed (\<^verbatim>\<open>reporter_id\<close>
  is the user's) and once anonymous: the two calls of \<^verbatim>\<open>createIssue\<close> are equal, and
  the row stored has no reporter.
\<close>

theorem createIssue_sends_six_fields_only_witness:
  "p_reporter_id ex_named_input = Some ''u1'' \<and> p_reporter_id ex_input = None
   \<and> p_metadata ex_named_input \<noteq> p_metadata ex_input
   \<and> createIssue ex_env ex_named_input ex_backend ex_client
       = createIssue ex_env ex_input ex_backend ex_client
   \<and> (\<exists>issue be' cl'.
        createIssue ex_env ex_named_input ex_backend ex_client = (Inr (issue, ''q8Zr1TnYb0c''), be', cl')
        \<and> reporter_id issue = None
        \<and> map reporter_id (filter (\<lambda>r. anonymous_token r = ''q8Zr1TnYb0c'') (tbl_issues be')) = [None])"
proof -
  have a: "p_title ex_named_input = p_title ex_input"
    "p_description ex_named_input = p_description ex_input"
    "p_category_id ex_named_input = p_category_id ex_input"
    "p_department_id ex_named_input = p_department_id ex_input"
    "p_severity ex_named_input = p_severity ex_input"
    "p_location ex_named_input = p_location ex_input"
    by (simp_all add: ex_defs ex2_defs)
  have b: "p_reporter_id ex_named_input = Some ''u1''" "p_reporter_id ex_input = None"
    "p_metadata ex_named_input \<noteq> p_metadata ex_input"
    by (simp_all add: ex_defs ex2_defs)
  from ex_create_full obtain issue be' cl' where
    h: "createIssue ex_env ex_input ex_backend ex_client = (Inr (issue, ''q8Zr1TnYb0c''), be', cl')"
    by blast
  from createIssue_sends_six_fields_only[OF a, of _ ex_env ex_backend ex_client issue
      "''q8Zr1TnYb0c''" be' cl'] h b
  show ?thesis by auto
qed

subsection \<open>A token that matches no issue\<close>

lemmas track_defs = trackIssueByToken_def query_by_token_def request_def handleTrack_def
  show_toast_def console_error_def select_with_updates_def public_updates_def joined_def
  find_category_def find_department_def Let_def

lemma single_never_null: "single xs \<noteq> Response None None"
  by (cases xs rule: single.cases) simp_all

text \<open>The hook never returns null: the branch of the page for it is never taken.\<close>

lemma trackIssueByToken_never_null: "fst (trackIssueByToken flt tok be cl) \<noteq> Inr None"
proof (cases flt)
  case None
  obtain d e where r: "single (map (select_with_updates be)
      (filter (\<lambda>r. anonymous_token r = tok) (tbl_issues be))) = Response d e"
    by (cases "single (map (select_with_updates be)
      (filter (\<lambda>r. anonymous_token r = tok) (tbl_issues be)))")
  with single_never_null[of "map (select_with_updates be)
      (filter (\<lambda>r. anonymous_token r = tok) (tbl_issues be))"]
  have "d \<noteq> None \<or> e \<noteq> None" by auto
  with None r show ?thesis
    by (auto simp: trackIssueByToken_def query_by_token_def request_def split: option.splits)
next
  case (Some e)
  then show ?thesis by (simp add: trackIssueByToken_def query_by_token_def request_def)
qed

text \<open>
  A token that no issue has and a failure of the transport take the same path: the error
  is logged, the same notification is shown, and the error is thrown to the caller.
\<close>

lemma track_unknown_token:
  assumes "\<not> list_ex (\<lambda>r. anonymous_token r = tok) (tbl_issues be)"
  shows "trackIssueByToken None tok be cl =
           (Inl pgrst116,
            show_toast not_found_toast (console_error ''Error tracking issue:'' pgrst116 cl))"
  using assms
  by (simp add: trackIssueByToken_def query_by_token_def request_def list_ex_filter_empty
      not_found_toast_def)

lemma track_transport_failure:
  "trackIssueByToken (Some e) tok be cl =
     (Inl e, show_toast not_found_toast (console_error ''Error tracking issue:'' e cl))"
  by (simp add: trackIssueByToken_def query_by_token_def request_def not_found_toast_def)

text \<open>
  C1, on the code. With a token that was never issued, on a data store without issues,
  \<^verbatim>\<open>trackIssueByToken\<close> does not return a not-found value: it throws the error of
  \<^verbatim>\<open>.single()\<close> after the notification ``Issue not found'', exactly as it throws a
  transport error after the same notification; \<^verbatim>\<open>handleTrack\<close> catches both alike
  and adds ``Error tracking issue''.
\<close>

theorem track_unknown_token_throws:
  "trackIssueByToken None ''never-issued'' ex_backend ex_client =
     (Inl pgrst116,
      ex_client\<lparr>toasts := [not_found_toast],
                console := [(''Error tracking issue:'', pgrst116)]\<rparr>)
   \<and> trackIssueByToken (Some ex_error) ''never-issued'' ex_backend ex_client =
     (Inl ex_error,
      ex_client\<lparr>toasts := [not_found_toast],
                console := [(''Error tracking issue:'', ex_error)]\<rparr>)
   \<and> map toast_title
        (toasts (snd (handleTrack None ''never-issued'' ex_backend (ex_page, ex_client))))
       = [''Issue not found'', ''Error tracking issue'']
   \<and> map toast_title
        (toasts (snd (handleTrack (Some ex_error) ''never-issued'' ex_backend (ex_page, ex_client))))
       = [''Issue not found'', ''Error tracking issue'']"
  by (simp add: track_defs ex_defs ex2_defs not_found_toast_def)

subsection \<open>What the hook does with a failure\<close>

lemma insert_needs_token:
  assumes "insert_and_select w (insertData_of None i) be = (r, b)"
  shows "error r \<noteq> None"
proof
  assume "error r = None"
  from insert_and_select_ok[OF assms this] obtain row where
    "insert_issue (db_now w) (db_uuid w) (insertData_of None i) be = Inr row" by blast
  from insert_issue_row(4)[OF this] show False by (simp add: insertData_of_def)
qed

lemma createIssue_failure_client:
  assumes "fst (createIssue w i be cl) = Inl e"
  shows "snd (snd (createIssue w i be cl)) = createIssue_catch e cl"
proof (cases "data (rpc_result w)")
  case None
  obtain r b where rb: "insert_and_select w (insertData_of None i) be = (r, b)"
    by (cases "insert_and_select w (insertData_of None i) be")
  from insert_needs_token[OF rb] obtain e' where "error r = Some e'" by auto
  with assms None rb show ?thesis
    by (auto simp: createIssue_def Let_def split: option.splits)
next
  case (Some tok)
  with assms show ?thesis
    by (auto simp: createIssue_def Let_def split: option.splits prod.splits)
qed

lemma updateIssue_failure_client:
  assumes "fst (updateIssue w k u be cl) = Inl e"
  shows "snd (snd (updateIssue w k u be cl)) = updateIssue_catch e cl"
  using assms
  by (auto simp: updateIssue_def Let_def split: option.splits prod.splits)

lemma trackIssueByToken_failure_client:
  assumes "fst (trackIssueByToken flt tok be cl) = Inl e"
  shows "snd (trackIssueByToken flt tok be cl)
           = show_toast not_found_toast (console_error ''Error tracking issue:'' e cl)"
  using assms
  by (auto simp: trackIssueByToken_def Let_def not_found_toast_def split: option.splits)

lemma transport_failures_thrown:
  "fst (createIssue (w\<lparr>rpc_result := Response None (Some e)\<rparr>) i be cl) = Inl e"
  "fst (createIssue (w\<lparr>rpc_result := Response (Some t) None, fault := Some e\<rparr>) i be cl) = Inl e"
  "fst (updateIssue (w\<lparr>fault := Some e\<rparr>) k u be cl) = Inl e"
  "fst (trackIssueByToken (Some e) tok be cl) = Inl e"
  by (simp_all add: createIssue_def insert_and_select_def updateIssue_def update_and_select_def
      trackIssueByToken_def query_by_token_def request_def)

text \<open>
  C4, as amended. Every failure of a remote operation is caught in the hook and logged.
  \<^verbatim>\<open>fetchIssues\<close>, \<^verbatim>\<open>createIssue\<close>, \<^verbatim>\<open>updateIssue\<close> and
  \<^verbatim>\<open>trackIssueByToken\<close> then show one destructive notification;
  \<^verbatim>\<open>fetchCategories\<close> and \<^verbatim>\<open>fetchDepartments\<close> show none.
  \<^verbatim>\<open>createIssue\<close>, \<^verbatim>\<open>updateIssue\<close> and \<^verbatim>\<open>trackIssueByToken\<close> throw
  the error object they caught, unchanged, to the page that called them.
\<close>

theorem hook_failures_logged_and_rethrown:
  "fetchIssues (Some e) be cl =
     show_toast \<lparr>toast_title = ''Error loading issues'', toast_description = Some (message e),
                 toast_variant = Destructive\<rparr> (console_error ''Error fetching issues:'' e cl)
   \<and> fetchCategories (Some e) be cl = console_error ''Error fetching categories:'' e cl
   \<and> fetchDepartments (Some e) be cl = console_error ''Error fetching departments:'' e cl
   \<and> (fst (createIssue w i be cl) = Inl e \<longrightarrow>
        snd (snd (createIssue w i be cl)) =
          show_toast \<lparr>toast_title = ''Error reporting issue'', toast_description = Some (message e),
                      toast_variant = Destructive\<rparr> (console_error ''Error creating issue:'' e cl))
   \<and> (fst (updateIssue w k u be cl) = Inl e \<longrightarrow>
        snd (snd (updateIssue w k u be cl)) =
          show_toast \<lparr>toast_title = ''Error updating issue'', toast_description = Some (message e),
                      toast_variant = Destructive\<rparr> (console_error ''Error updating issue:'' e cl))
   \<and> (fst (trackIssueByToken flt tok be cl) = Inl e \<longrightarrow>
        snd (trackIssueByToken flt tok be cl) =
          show_toast \<lparr>toast_title = ''Issue not found'',
                      toast_description = Some ''Please check your tracking token and try again.'',
                      toast_variant = Destructive\<rparr> (console_error ''Error tracking issue:'' e cl))
   \<and> fst (createIssue (w\<lparr>rpc_result := Response None (Some e)\<rparr>) i be cl) = Inl e
   \<and> fst (createIssue (w\<lparr>rpc_result := Response (Some t) None, fault := Some e\<rparr>) i be cl) = Inl e
   \<and> fst (updateIssue (w\<lparr>fault := Some e\<rparr>) k u be cl) = Inl e
   \<and> fst (trackIssueByToken (Some e) tok be cl) = Inl e"
proof -
  have f: "fetchIssues (Some e) be cl =
     show_toast \<lparr>toast_title = ''Error loading issues'', toast_description = Some (message e),
                 toast_variant = Destructive\<rparr> (console_error ''Error fetching issues:'' e cl)"
    "fetchCategories (Some e) be cl = console_error ''Error fetching categories:'' e cl"
    "fetchDepartments (Some e) be cl = console_error ''Error fetching departments:'' e cl"
    by (simp_all add: fetchIssues_def query_issues_def fetchCategories_def query_categories_def
        fetchDepartments_def query_departments_def request_def)
  show ?thesis
    using f createIssue_failure_client[of w i be cl e] updateIssue_failure_client[of w k u be cl e]
      trackIssueByToken_failure_client[of flt tok be cl e]
    unfolding createIssue_catch_def updateIssue_catch_def not_found_toast_def
    by (simp add: transport_failures_thrown)
qed

theorem hook_failures_logged_and_rethrown_witness:
  "fst (createIssue ex_env_down ex_input ex_backend ex_client) = Inl ex_error
   \<and> fst (updateIssue ex_env_down ''i1'' no_patch ex_backend ex_client) = Inl ex_error
   \<and> fst (trackIssueByToken (Some ex_error) ''never-issued'' ex_backend ex_client) = Inl ex_error
   \<and> map toast_title (toasts (snd (snd (createIssue ex_env_down ex_input ex_backend ex_client))))
        = [''Error reporting issue'']
   \<and> map toast_title (toasts (snd (snd (updateIssue ex_env_down ''i1'' no_patch ex_backend ex_client))))
        = [''Error updating issue'']
   \<and> map toast_title (toasts (snd (trackIssueByToken (Some ex_error) ''never-issued'' ex_backend ex_client)))
        = [''Issue not found'']
   \<and> console (snd (snd (createIssue ex_env_down ex_input ex_backend ex_client)))
        = [(''Error creating issue:'', ex_error)]"
proof -
  have a: "fst (createIssue ex_env_down ex_input ex_backend ex_client) = Inl ex_error"
    "fst (updateIssue ex_env_down ''i1'' no_patch ex_backend ex_client) = Inl ex_error"
    "fst (trackIssueByToken (Some ex_error) ''never-issued'' ex_backend ex_client) = Inl ex_error"
    by (simp_all add: createIssue_def insert_and_select_def updateIssue_def update_and_select_def
      trackIssueByToken_def query_by_token_def request_def ex_defs ex_env_down_def)
  from hook_failures_logged_and_rethrown[where e = ex_error and be = ex_backend
      and cl = ex_client and w = ex_env_down and i = ex_input and k = "''i1''" and u = no_patch
      and flt = "Some ex_error" and tok = "''never-issued''"] a
  show ?thesis
    by (simp add: show_toast_def console_error_def ex_client_def)
qed

text \<open>
  C4 as stated fails: a failed \<^verbatim>\<open>fetchCategories\<close> or \<^verbatim>\<open>fetchDepartments\<close>
  shows no notification, and a failed \<^verbatim>\<open>createIssue\<close> hands the error object, with
  its code, to its caller.
\<close>

theorem silent_and_rethrown_failures_counterexample:
  "toasts (fetchCategories (Some ex_error) ex_backend ex_client) = []
   \<and> toasts (fetchDepartments (Some ex_error) ex_backend ex_client) = []
   \<and> fst (createIssue ex_env_down ex_input ex_backend ex_client) = Inl ex_error
   \<and> code ex_error = ''ECONNREFUSED''"
  by (simp add: fetchCategories_def query_categories_def fetchDepartments_def
      query_departments_def request_def console_error_def createIssue_def insert_and_select_def
      ex_defs ex_env_down_def)

subsection \<open>The order of the issue list\<close>

lemmas update_defs = updateIssue_def update_and_select_def update_issue_def staff_policy_def
  privileged_role_def apply_patch_def patched_def patched_opt_def update_updated_at_column_def
  select_with_assignee_def find_category_def find_department_def find_profile_def joined_def
  transform_updated_def array_or_empty_def object_or_empty_def show_toast_def Let_def

lemmas fetch_defs = fetchIssues_def query_issues_def request_def order_created_at_desc_def
  transform_fetched_def or_empty_object_def

lemma newest_first_map_created_at:
  "newest_first xs = sorted_wrt (\<lambda>a b. b \<le> a) (map created_at xs)"
  by (simp add: newest_first_def sorted_wrt_map)

lemma newest_first_order: "newest_first (order_created_at_desc rows)"
proof -
  have "sorted (map created_at (sort_key created_at rows))" by (rule sorted_sort_key)
  then have "sorted_wrt (\<lambda>a b. created_at a \<le> created_at b) (sort_key created_at rows)"
    by (simp add: sorted_wrt_map)
  then show ?thesis
    by (simp add: newest_first_def order_created_at_desc_def sorted_wrt_rev)
qed

lemma created_at_select [simp]:
  "created_at (select_with_assignee be r) = created_at r"
  "created_at (select_plain be r) = created_at r"
  "created_at (select_with_updates be r) = created_at r"
  by (simp_all add: select_with_assignee_def select_plain_def select_with_updates_def joined_def)

lemma created_at_transform [simp]:
  "created_at (transform_fetched d) = created_at d"
  "created_at (transform_created d) = created_at d"
  "created_at (transform_updated d) = created_at d"
  by (simp_all add: transform_fetched_def transform_created_def transform_updated_def)

lemma fetch_sorted: "newest_first (issues (fetchIssues None be cl))"
proof -
  have "map created_at (issues (fetchIssues None be cl))
          = map created_at (order_created_at_desc (tbl_issues be))"
    by (simp add: fetchIssues_def query_issues_def request_def comp_def)
  with newest_first_order[of "tbl_issues be"] show ?thesis
    by (simp add: newest_first_map_created_at)
qed

lemma fetch_fail_issues: "issues (fetchIssues (Some e) be cl) = issues cl"
  by (simp add: fetchIssues_def query_issues_def request_def show_toast_def console_error_def)

lemma createIssue_catch_issues [simp]: "issues (createIssue_catch e cl) = issues cl"
  by (simp add: createIssue_catch_def show_toast_def console_error_def)

lemma updateIssue_catch_issues [simp]: "issues (updateIssue_catch e cl) = issues cl"
  by (simp add: updateIssue_catch_def show_toast_def console_error_def)

lemma create_sorted:
  assumes "newest_first (issues cl)"
      and "list_all (\<lambda>x. created_at x \<le> db_now w) (issues cl)"
  shows "newest_first (issues (snd (snd (createIssue w i be cl))))"
proof (cases "fst (createIssue w i be cl)")
  case (Inl e)
  from createIssue_failure_client[OF Inl] assms(1) show ?thesis by simp
next
  case (Inr p)
  obtain issue tok where p: "p = (issue, tok)" by (cases p)
  obtain be' cl' where h: "createIssue w i be cl = (Inr (issue, tok), be', cl')"
    using Inr p by (cases "createIssue w i be cl") auto
  from createIssue_success[OF h] obtain row where
    row: "insert_issue (db_now w) (db_uuid w) (insertData_of (Some tok) i) be = Inr row"
    and iss: "issue = transform_created (select_plain (be\<lparr>tbl_issues := tbl_issues be @ [row]\<rparr>) row)"
    and cl': "issues cl' = issue # issues cl" by blast
  from insert_issue_row(10)[OF row] iss have "created_at issue = db_now w" by simp
  with assms cl' h show ?thesis
    by (simp add: newest_first_def list_all_iff)
qed

lemma update_issue_rows:
  assumes "update_issue now u issueId be = Inr (be', rows)"
  shows "rows = [] \<or> (\<exists>r. find (\<lambda>r. issue_id r = issueId) (tbl_issues be) = Some r
                        \<and> rows = [update_updated_at_column now (apply_patch u r)])"
  using assms
  by (auto simp: update_issue_def Let_def split: if_splits option.splits)

lemma updateIssue_cases:
  "(\<exists>e. fst (updateIssue w issueId u be cl) = Inl e
        \<and> snd (snd (updateIssue w issueId u be cl)) = updateIssue_catch e cl)
   \<or> (\<exists>r. find (\<lambda>r. issue_id r = issueId) (tbl_issues be) = Some r
        \<and> created_at (projr (fst (updateIssue w issueId u be cl)))
            = patched (p_created_at u) (created_at r)
        \<and> issues (snd (snd (updateIssue w issueId u be cl)))
            = map (\<lambda>issue. if issue_id issue = issueId
                            then projr (fst (updateIssue w issueId u be cl)) else issue) (issues cl))"
proof (cases "fault w")
  case (Some e)
  then show ?thesis by (simp add: updateIssue_def update_and_select_def)
next
  case None
  show ?thesis
  proof (cases "update_issue (db_now w) u issueId be")
    case (Inl e)
    with None show ?thesis by (simp add: updateIssue_def update_and_select_def)
  next
    case (Inr p)
    obtain be' rows where p: "p = (be', rows)" by (cases p)
    from update_issue_rows[OF Inr[unfolded p]] show ?thesis
    proof
      assume "rows = []"
      with None Inr p show ?thesis by (simp add: updateIssue_def update_and_select_def)
    next
      assume "\<exists>r. find (\<lambda>r. issue_id r = issueId) (tbl_issues be) = Some r
                        \<and> rows = [update_updated_at_column (db_now w) (apply_patch u r)]"
      then obtain r where r: "find (\<lambda>r. issue_id r = issueId) (tbl_issues be) = Some r"
        "rows = [update_updated_at_column (db_now w) (apply_patch u r)]" by blast
      with None Inr p show ?thesis
        by (simp add: updateIssue_def update_and_select_def Let_def show_toast_def
            update_updated_at_column_def apply_patch_def)
    qed
  qed
qed

lemma update_sorted:
  assumes "newest_first (issues cl)"
      and "p_created_at u = None"
      and "created_at_agrees be (issues cl)"
  shows "newest_first (issues (snd (snd (updateIssue w issueId u be cl))))"
  using updateIssue_cases[of w issueId u be cl]
proof (elim disjE exE conjE)
  fix e assume "snd (snd (updateIssue w issueId u be cl)) = updateIssue_catch e cl"
  with assms(1) show ?thesis by simp
next
  fix r
  assume f: "find (\<lambda>r. issue_id r = issueId) (tbl_issues be) = Some r"
    and c: "created_at (projr (fst (updateIssue w issueId u be cl)))
            = patched (p_created_at u) (created_at r)"
    and i: "issues (snd (snd (updateIssue w issueId u be cl)))
            = map (\<lambda>issue. if issue_id issue = issueId
                            then projr (fst (updateIssue w issueId u be cl)) else issue) (issues cl)"
  from f have rin: "r \<in> set (tbl_issues be)" and rid: "issue_id r = issueId"
    by (auto simp: find_Some_iff)
  from c assms(2) have c': "created_at (projr (fst (updateIssue w issueId u be cl))) = created_at r"
    by (simp add: patched_def)
  have "map created_at (issues (snd (snd (updateIssue w issueId u be cl)))) = map created_at (issues cl)"
    unfolding i using assms(3) rin rid c'
    by (auto simp: list_all_iff created_at_agrees_def)
  with assms(1) show ?thesis by (simp add: newest_first_map_created_at)
qed

text \<open>
  C8, as amended. A fetch that succeeds leaves the issue list newest first, and one that
  fails leaves the list as it was. \<^verbatim>\<open>createIssue\<close> keeps a newest-first list newest
  first when no issue of the list was created later than the clock of the data store at
  the insert. \<^verbatim>\<open>updateIssue\<close> keeps a newest-first list newest first when the patch
  does not set \<^verbatim>\<open>created_at\<close> and the issues of the list carry the creation times
  their rows have in the data store.
\<close>

theorem issue_list_order_preserved:
  "newest_first (issues (fetchIssues None be cl))
   \<and> (newest_first (issues cl) \<longrightarrow> newest_first (issues (fetchIssues (Some e) be cl)))
   \<and> (newest_first (issues cl) \<and> list_all (\<lambda>x. created_at x \<le> db_now w) (issues cl) \<longrightarrow>
        newest_first (issues (snd (snd (createIssue w i be cl)))))
   \<and> (newest_first (issues cl) \<and> p_created_at u = None \<and> created_at_agrees be (issues cl) \<longrightarrow>
        newest_first (issues (snd (snd (updateIssue w k u be cl)))))"
  using fetch_sorted[of be cl] fetch_fail_issues[of e be cl] create_sorted[of cl w i be]
    update_sorted[of cl u be w k]
  by simp

theorem issue_list_order_preserved_witness:
  "newest_first (issues ex_client2)
   \<and> list_all (\<lambda>x. created_at x \<le> db_now ex_env3) (issues ex_client2)
   \<and> p_created_at ex_status_patch = None
   \<and> created_at_agrees ex_backend2 (issues ex_client2)
   \<and> map issue_id (issues (snd (snd (createIssue ex_env3 ex_input ex_backend2 ex_client2))))
       = [''i3'', ''i2'', ''i1'']
   \<and> newest_first (issues (snd (snd (createIssue ex_env3 ex_input ex_backend2 ex_client2))))
   \<and> map status (issues (snd (snd (updateIssue ex_env3 ''i2'' ex_status_patch ex_backend2 ex_client2))))
       = [Resolved, Open]
   \<and> newest_first (issues (snd (snd (updateIssue ex_env3 ''i2'' ex_status_patch ex_backend2 ex_client2))))"
proof -
  have l: "issues ex_client2 = map transform_fetched (map (select_with_assignee ex_backend2) [ex_row2, ex_row1])"
    by (simp add: ex_client2_def fetchIssues_def query_issues_def request_def
        order_created_at_desc_def ex_backend2_def ex_row1_def ex_row2_def)
  have a: "newest_first (issues ex_client2)"
    unfolding newest_first_map_created_at l by (simp add: ex_row1_def ex_row2_def)
  have b: "list_all (\<lambda>x. created_at x \<le> db_now ex_env3) (issues ex_client2)"
    unfolding l by (simp add: ex_row1_def ex_row2_def ex_env3_def)
  have c: "p_created_at ex_status_patch = None"
    by (simp add: ex_status_patch_def no_patch_def)
  have d: "created_at_agrees ex_backend2 (issues ex_client2)"
    unfolding l created_at_agrees_def
    by (simp add: ex_backend2_def ex_row1_def ex_row2_def select_with_assignee_def joined_def
        transform_fetched_def)
  have e: "map issue_id (issues (snd (snd (createIssue ex_env3 ex_input ex_backend2 ex_client2))))
       = [''i3'', ''i2'', ''i1'']"
    unfolding ex_client2_def
    by (simp add: ex_defs ex2_defs create_defs fetch_defs select_with_assignee_def find_profile_def)
  have f: "map status (issues (snd (snd (updateIssue ex_env3 ''i2'' ex_status_patch ex_backend2 ex_client2))))
       = [Resolved, Open]"
    unfolding ex_client2_def
    by (simp add: ex_defs ex2_defs update_defs fetch_defs)
  from issue_list_order_preserved[of ex_backend2 ex_client2 _ ex_env3 ex_input ex_status_patch "''i2''"] a b c d e f
  show ?thesis by blast
qed

text \<open>
  C8 as stated fails: the list fetched from the second data store is newest first; the
  staff account's \<^verbatim>\<open>updateIssue\<close> of the first issue of the list with a patch that
  sets \<^verbatim>\<open>created_at\<close> to an earlier time succeeds, the issue is replaced in place,
  and the list is no longer newest first.
\<close>

theorem updateIssue_created_at_breaks_order_counterexample:
  "newest_first (issues ex_client2)
   \<and> \<not> isl (fst (updateIssue ex_env2 ''i2'' ex_patch ex_backend2 ex_client2))
   \<and> \<not> newest_first (issues (snd (snd (updateIssue ex_env2 ''i2'' ex_patch ex_backend2 ex_client2))))"
  by (simp add: ex_defs ex2_defs fetch_defs update_defs newest_first_def)

subsection \<open>The roles of the sign-up and the roles of the policies\<close>

lemma role_enum_not_privileged: "r \<in> set role_enum \<Longrightarrow> \<not> privileged_role r"
  by (auto simp: role_enum_def privileged_role_def)

lemma staff_policy_append:
  "staff_policy (be\<lparr>tbl_profiles := tbl_profiles be @ [p], auth_uid := Some u\<rparr>)
    = (list_ex (\<lambda>q. user_id q = u \<and> privileged_role (role q)) (tbl_profiles be)
       \<or> (user_id p = u \<and> privileged_role (role p)))"
  by (auto simp: staff_policy_def list_ex_iff)

text \<open>
  C10. Let the form data pass \<^verbatim>\<open>signUpSchema\<close>, let the metadata of the new account
  carry the role the page passed or no role, and let the account have no profile yet. Then
  the role of the profile that \<^verbatim>\<open>handle_new_user\<close> creates is one of
  \<^verbatim>\<open>'employee'\<close>, \<^verbatim>\<open>'manager'\<close>, \<^verbatim>\<open>'hr'\<close>, none of which is
  \<^verbatim>\<open>'staff'\<close> or \<^verbatim>\<open>'faculty'\<close>, and in the session of the new account the
  condition of the policies for updating issues and inserting issue updates is false.
\<close>

theorem signup_roles_not_privileged:
  assumes "signUpSchema is_email d"
      and "map_of (raw_user_meta_data new) ''role'' = None
           \<or> map_of (raw_user_meta_data new) ''role'' = map_of (handleSignUp_metadata d) ''role''"
      and "\<not> list_ex (\<lambda>p. user_id p = au_id new) (tbl_profiles be)"
  shows "map_of (handleSignUp_metadata d) ''role'' = Some (su_role d)
       \<and> su_role d \<in> set role_enum
       \<and> list_all (\<lambda>r. \<not> privileged_role r) role_enum
       \<and> role (handle_new_user pid new) \<in> set role_enum
       \<and> \<not> privileged_role (role (handle_new_user pid new))
       \<and> \<not> staff_policy ((on_auth_user_created pid new be)\<lparr>auth_uid := Some (au_id new)\<rparr>)"
proof -
  from assms(1) have m: "su_role d \<in> set role_enum" by (simp add: signUpSchema_def)
  have r: "map_of (handleSignUp_metadata d) ''role'' = Some (su_role d)"
    by (simp add: handleSignUp_metadata_def)
  have all: "list_all (\<lambda>r. \<not> privileged_role r) role_enum"
    by (simp add: role_enum_def privileged_role_def)
  from assms(2) r m have rn: "role (handle_new_user pid new) \<in> set role_enum"
    by (auto simp: handle_new_user_def coalesce_def role_enum_def)
  then have np: "\<not> privileged_role (role (handle_new_user pid new))"
    by (rule role_enum_not_privileged)
  from assms(3) have "\<not> list_ex (\<lambda>q. user_id q = au_id new \<and> privileged_role (role q)) (tbl_profiles be)"
    by (auto simp: list_ex_iff)
  with np have "\<not> staff_policy ((on_auth_user_created pid new be)\<lparr>auth_uid := Some (au_id new)\<rparr>)"
    by (simp add: on_auth_user_created_def staff_policy_append)
  with m r all rn np show ?thesis by blast
qed

theorem signup_roles_not_privileged_witness:
  "signUpSchema (\<lambda>s. CHR ''@'' \<in> set s) ex_signup
   \<and> map_of (raw_user_meta_data ex_account) ''role'' = map_of (handleSignUp_metadata ex_signup) ''role''
   \<and> \<not> list_ex (\<lambda>p. user_id p = au_id ex_account) (tbl_profiles ex_backend2)
   \<and> role (handle_new_user ''p2'' ex_account) = ''manager''
   \<and> \<not> privileged_role (role (handle_new_user ''p2'' ex_account))
   \<and> \<not> staff_policy ((on_auth_user_created ''p2'' ex_account ex_backend2)\<lparr>auth_uid := Some (au_id ex_account)\<rparr>)"
proof -
  have a: "signUpSchema (\<lambda>s. CHR ''@'' \<in> set s) ex_signup"
    by (simp add: signUpSchema_def ex2_defs role_enum_def)
  have b: "map_of (raw_user_meta_data ex_account) ''role'' = map_of (handleSignUp_metadata ex_signup) ''role''"
    by (simp add: ex_account_def)
  have c: "\<not> list_ex (\<lambda>p. user_id p = au_id ex_account) (tbl_profiles ex_backend2)"
    by (simp add: ex2_defs)
  have d: "role (handle_new_user ''p2'' ex_account) = ''manager''"
    by (simp add: ex2_defs handle_new_user_def handleSignUp_metadata_def coalesce_def)
  from signup_roles_not_privileged[OF a disjI2[OF b] c, of "''p2''"] a b c d show ?thesis by blast
qed

end
